theory Spec2Isabelle
  imports Main "HOL-Library.Word"
begin

unbundle bit_operations_syntax

section \<open>Machine types\<close>

text \<open>
  The enclave is an x86-64 SGX binary: \<open>uint8_t\<close>, \<open>uint32_t\<close> and \<open>uint64_t\<close> are
  words that wrap around, \<open>size_t\<close> is 64 bits wide, and a \<open>memcpy\<close> between a byte
  buffer and an integer reads or writes the integer in little-endian order.
  A buffer given as pointer and size is a list whose length is the size.
\<close>

type_synonym byte = "8 word"
type_synonym u32 = "32 word"
type_synonym u64 = "64 word"

definition le_word :: "byte list \<Rightarrow> u64" where
  "le_word bs = foldr (\<lambda>b acc. ucast b OR push_bit 8 acc) bs 0"

definition le64_bytes :: "u64 \<Rightarrow> byte list" where
  "le64_bytes x = [ucast x, ucast (drop_bit 8 x), ucast (drop_bit 16 x), ucast (drop_bit 24 x),
                   ucast (drop_bit 32 x), ucast (drop_bit 40 x), ucast (drop_bit 48 x),
                   ucast (drop_bit 56 x)]"

section \<open>SHA-256 of the SGX SDK\<close>

text \<open>
  \<open>sgx_sha256_msg\<close> and the streaming \<open>sgx_sha256_init/update/get_hash\<close> belong to the
  SGX SDK, not to the repository. They compute SHA-256 as FIPS 180-4 defines it; the
  streaming interface hashes the concatenation of the updates. The calls are taken to
  succeed (they fail only on a null argument or when the SDK cannot allocate its state).
  \<open>K256\<close> holds the 64 round constants and \<open>H256_init\<close> the initial hash value of the
  standard, in decimal.
\<close>

definition rotr :: "nat \<Rightarrow> u32 \<Rightarrow> u32" where
  "rotr n x = (drop_bit n x) OR (push_bit (32 - n) x)"

definition Ch :: "u32 \<Rightarrow> u32 \<Rightarrow> u32 \<Rightarrow> u32" where
  "Ch x y z = (x AND y) XOR (NOT x AND z)"

definition Maj :: "u32 \<Rightarrow> u32 \<Rightarrow> u32 \<Rightarrow> u32" where
  "Maj x y z = (x AND y) XOR (x AND z) XOR (y AND z)"

definition Sigma0 :: "u32 \<Rightarrow> u32" where
  "Sigma0 x = rotr 2 x XOR rotr 13 x XOR rotr 22 x"

definition Sigma1 :: "u32 \<Rightarrow> u32" where
  "Sigma1 x = rotr 6 x XOR rotr 11 x XOR rotr 25 x"

definition sigma0 :: "u32 \<Rightarrow> u32" where
  "sigma0 x = rotr 7 x XOR rotr 18 x XOR drop_bit 3 x"

definition sigma1 :: "u32 \<Rightarrow> u32" where
  "sigma1 x = rotr 17 x XOR rotr 19 x XOR drop_bit 10 x"

definition K256 :: "u32 list" where
  "K256 =
    [1116352408, 1899447441, 3049323471, 3921009573, 961987163, 1508970993,
     2453635748, 2870763221, 3624381080, 310598401, 607225278, 1426881987,
     1925078388, 2162078206, 2614888103, 3248222580, 3835390401, 4022224774,
     264347078, 604807628, 770255983, 1249150122, 1555081692, 1996064986,
     2554220882, 2821834349, 2952996808, 3210313671, 3336571891, 3584528711,
     113926993, 338241895, 666307205, 773529912, 1294757372, 1396182291,
     1695183700, 1986661051, 2177026350, 2456956037, 2730485921, 2820302411,
     3259730800, 3345764771, 3516065817, 3600352804, 4094571909, 275423344,
     430227734, 506948616, 659060556, 883997877, 958139571, 1322822218,
     1537002063, 1747873779, 1955562222, 2024104815, 2227730452, 2361852424,
     2428436474, 2756734187, 3204031479, 3329325298]"

definition H256_init :: "u32 list" where
  "H256_init =
    [1779033703, 3144134277, 1013904242, 2773480762,
     1359893119, 2600822924, 528734635, 1541459225]"

definition be32 :: "byte list \<Rightarrow> u32" where
  "be32 bs = foldl (\<lambda>acc b. push_bit 8 acc OR ucast b) 0 bs"

definition be32_bytes :: "u32 \<Rightarrow> byte list" where
  "be32_bytes x = [ucast (drop_bit 24 x), ucast (drop_bit 16 x), ucast (drop_bit 8 x), ucast x]"

definition be64_bytes :: "u64 \<Rightarrow> byte list" where
  "be64_bytes x = [ucast (drop_bit 56 x), ucast (drop_bit 48 x), ucast (drop_bit 40 x),
                   ucast (drop_bit 32 x), ucast (drop_bit 24 x), ucast (drop_bit 16 x),
                   ucast (drop_bit 8 x), ucast x]"

definition sha_pad :: "byte list \<Rightarrow> byte list" where
  "sha_pad m = m @ [0x80] @ replicate ((119 - length m mod 64) mod 64) 0
                 @ be64_bytes (of_nat (8 * length m))"

fun chunks :: "nat \<Rightarrow> nat \<Rightarrow> 'a list \<Rightarrow> 'a list list" where
  "chunks 0 k xs = []"
| "chunks (Suc n) k xs = take k xs # chunks n k (drop k xs)"

fun schedule :: "nat \<Rightarrow> u32 list \<Rightarrow> u32 list" where
  "schedule 0 w = w"
| "schedule (Suc n) w =
     schedule n (w @ [sigma1 (w ! (length w - 2)) + w ! (length w - 7)
                      + sigma0 (w ! (length w - 15)) + w ! (length w - 16)])"

fun sha_round :: "u32 list \<Rightarrow> u32 \<times> u32 \<Rightarrow> u32 list" where
  "sha_round [a, b, c, d, e, f, g, h] (k, w) =
     (let t1 = h + Sigma1 e + Ch e f g + k + w;
          t2 = Sigma0 a + Maj a b c
      in [t1 + t2, a, b, c, d + t1, e, f, g])"
| "sha_round s _ = s"

definition compress :: "u32 list \<Rightarrow> byte list \<Rightarrow> u32 list" where
  "compress hs blk =
     (let w = schedule 48 (map be32 (chunks 16 4 blk))
      in map2 (+) hs (foldl sha_round hs (zip K256 w)))"

definition sha256 :: "byte list \<Rightarrow> byte list" where
  "sha256 m =
     (let p = sha_pad m
      in concat (map be32_bytes (foldl compress H256_init (chunks (length p div 64) 64 p))))"

section \<open>enclave.h: constants and data\<close>

definition MAX_CONTRACT_SIZE :: nat where
  "MAX_CONTRACT_SIZE = 1024 * 1024"

definition MAX_RESULT_SIZE :: nat where
  "MAX_RESULT_SIZE = 64 * 1024"

definition DEFAULT_GAS_LIMIT :: u64 where
  "DEFAULT_GAS_LIMIT = 1000000"

text \<open>The status codes the modelled functions return.\<close>

datatype sgx_status_t =
    SGX_SUCCESS
  | SGX_ERROR_INVALID_PARAMETER
  | SGX_ERROR_OUT_OF_MEMORY
  | SGX_ERROR_INVALID_STATE
  | SGX_ERROR_CONTRACT_INVALID
  | SGX_ERROR_CONTRACT_EXECUTION_FAILED
  | SGX_ERROR_INSUFFICIENT_GAS

text \<open>
  \<open>contract_opcode_t\<close> is a C enum; the code casts every byte of the program to it, so
  an opcode is a byte and the enumerators are names of byte values.
\<close>

definition OP_NOP :: byte where [simp]: "OP_NOP = 0x00"
definition OP_PUSH :: byte where [simp]: "OP_PUSH = 0x01"
definition OP_POP :: byte where [simp]: "OP_POP = 0x02"
definition OP_ADD :: byte where [simp]: "OP_ADD = 0x03"
definition OP_SUB :: byte where [simp]: "OP_SUB = 0x04"
definition OP_MUL :: byte where [simp]: "OP_MUL = 0x05"
definition OP_DIV :: byte where [simp]: "OP_DIV = 0x06"
definition OP_MOD :: byte where [simp]: "OP_MOD = 0x07"
definition OP_AND :: byte where [simp]: "OP_AND = 0x08"
definition OP_OR :: byte where [simp]: "OP_OR = 0x09"
definition OP_XOR :: byte where [simp]: "OP_XOR = 0x0A"
definition OP_NOT :: byte where [simp]: "OP_NOT = 0x0B"
definition OP_EQ :: byte where [simp]: "OP_EQ = 0x0C"
definition OP_LT :: byte where [simp]: "OP_LT = 0x0D"
definition OP_GT :: byte where [simp]: "OP_GT = 0x0E"
definition OP_JMP :: byte where [simp]: "OP_JMP = 0x0F"
definition OP_JMPIF :: byte where [simp]: "OP_JMPIF = 0x10"
definition OP_CALL :: byte where [simp]: "OP_CALL = 0x11"
definition OP_RET :: byte where [simp]: "OP_RET = 0x12"
definition OP_LOAD :: byte where [simp]: "OP_LOAD = 0x13"
definition OP_STORE :: byte where [simp]: "OP_STORE = 0x14"
definition OP_HASH :: byte where [simp]: "OP_HASH = 0x15"
definition OP_VERIFY :: byte where [simp]: "OP_VERIFY = 0x16"
definition OP_HALT :: byte where [simp]: "OP_HALT = 0xFF"

datatype contract_execution_state_t =
    CONTRACT_STATE_INIT
  | CONTRACT_STATE_RUNNING
  | CONTRACT_STATE_COMPLETED
  | CONTRACT_STATE_ERROR
  | CONTRACT_STATE_OUT_OF_GAS

text \<open>\<open>vm_stack_t\<close>: an array of 256 words and the index of the next free slot.\<close>

record vm_stack_t =
  stack_data :: "u64 list"
  stack_top :: nat

text \<open>
  \<open>contract_execution_context_t\<close>. \<open>contract_code\<close> with \<open>code_size\<close> and
  \<open>input_data\<close> with \<open>input_size\<close> are one list each; \<open>result_data\<close> is \<open>None\<close> for
  a null pointer.
\<close>

record contract_execution_context_t =
  contract_code :: "byte list"
  input_data :: "byte list"
  result_data :: "byte list option"
  result_size :: nat
  gas_limit :: u64
  gas_used :: u64
  pc :: u64
  state :: contract_execution_state_t
  stack :: vm_stack_t
  memory :: "byte list"
  execution_hash :: "byte list"

record contract_verifier_t =
  initialized :: bool
  execution_counter :: u64

text \<open>
  What the platform decides and the repository does not: whether \<open>malloc\<close> returns a
  buffer (of indeterminate content), and the indeterminate content of the uninitialised
  local \<open>result\<close> of \<open>execute_instruction\<close>, of which a jump overwrites four bytes only.
\<close>

record platform =
  malloc :: "nat \<Rightarrow> byte list option"
  uninit :: u64

text \<open>
  An instruction returns, or reads outside a buffer, which is undefined behaviour in C.
\<close>

datatype 'a access = Returns 'a | OutOfBounds

text \<open>
  A call that runs the interpreter loop returns, or meets such a read, or is still
  running when the fuel given to the model is used up.
\<close>

datatype 'a outcome = Done 'a | Fault | NoFuel

section \<open>contract_verifier.cpp: gas\<close>

text \<open>
  \<open>GAS_COSTS\<close> is initialised with designators; its highest index is \<open>OP_HALT\<close>, so it
  has 256 entries, and the entries without a designator are zero.
\<close>

definition GAS_COSTS :: "u64 list" where
  "GAS_COSTS = (replicate 256 0)
     [unat OP_NOP := 1, unat OP_PUSH := 3, unat OP_POP := 2, unat OP_ADD := 3,
      unat OP_SUB := 3, unat OP_MUL := 5, unat OP_HALT := 0]"

definition get_opcode_gas_cost :: "byte \<Rightarrow> u64" where
  "get_opcode_gas_cost opcode =
     (if unat opcode < length GAS_COSTS then GAS_COSTS ! unat opcode else 1)"

definition check_gas :: "contract_execution_context_t \<Rightarrow> u64 \<Rightarrow> bool" where
  "check_gas context gas_cost \<longleftrightarrow> gas_used context + gas_cost \<le> gas_limit context"

definition consume_gas ::
  "contract_execution_context_t \<Rightarrow> u64 \<Rightarrow> sgx_status_t \<times> contract_execution_context_t" where
  "consume_gas context gas_cost =
     (if \<not> check_gas context gas_cost then (SGX_ERROR_INSUFFICIENT_GAS, context)
      else (SGX_SUCCESS, context\<lparr>gas_used := gas_used context + gas_cost\<rparr>))"

section \<open>contract_verifier.cpp: the stack\<close>

definition stack_is_empty :: "vm_stack_t \<Rightarrow> bool" where
  "stack_is_empty s \<longleftrightarrow> stack_top s = 0"

definition stack_is_full :: "vm_stack_t \<Rightarrow> bool" where
  "stack_is_full s \<longleftrightarrow> stack_top s \<ge> 256"

definition stack_push :: "vm_stack_t \<Rightarrow> u64 \<Rightarrow> sgx_status_t + vm_stack_t" where
  "stack_push s v =
     (if stack_is_full s then Inl SGX_ERROR_INVALID_PARAMETER
      else Inr (s\<lparr>stack_data := (stack_data s)[stack_top s := v],
                  stack_top := stack_top s + 1\<rparr>))"

definition stack_pop :: "vm_stack_t \<Rightarrow> sgx_status_t + (u64 \<times> vm_stack_t)" where
  "stack_pop s =
     (if stack_is_empty s then Inl SGX_ERROR_INVALID_PARAMETER
      else Inr (stack_data s ! (stack_top s - 1), s\<lparr>stack_top := stack_top s - 1\<rparr>))"

section \<open>contract_verifier.cpp: the validator\<close>

text \<open>The opcodes that have a \<open>case\<close> label in the \<open>switch\<close> of the validator.\<close>

definition case_labels :: "byte list" where
  "case_labels = [OP_NOP, OP_PUSH, OP_POP, OP_ADD, OP_SUB, OP_MUL, OP_DIV, OP_MOD, OP_AND,
                  OP_OR, OP_XOR, OP_NOT, OP_EQ, OP_LT, OP_GT, OP_JMP, OP_JMPIF, OP_CALL,
                  OP_RET, OP_LOAD, OP_STORE, OP_HASH, OP_VERIFY, OP_HALT]"

text \<open>
  The scan \<open>for (i = 0; i < size; i++)\<close>. A byte with a \<open>case\<close> label only breaks out of
  the \<open>switch\<close>; the operand skips stand in the \<open>default\<close> branch.
\<close>

function validate_scan :: "byte list \<Rightarrow> nat \<Rightarrow> sgx_status_t" where
  "validate_scan code i =
     (if i < length code then
        (let opcode = code ! i in
         if opcode \<in> set case_labels then validate_scan code (i + 1)
         else if opcode = OP_PUSH \<and> i + 8 < length code then validate_scan code (i + 8 + 1)
         else if opcode = OP_JMP \<or> opcode = OP_JMPIF then
           (if i + 4 < length code then validate_scan code (i + 4 + 1)
            else validate_scan code (i + 1))
         else SGX_ERROR_CONTRACT_INVALID)
      else SGX_SUCCESS)"
  by pat_completeness auto
termination
  by (relation "measure (\<lambda>(code, i). length code - i)") auto

definition validate_contract_code :: "byte list \<Rightarrow> sgx_status_t" where
  "validate_contract_code code =
     (if length code = 0 \<or> length code > MAX_CONTRACT_SIZE then SGX_ERROR_CONTRACT_INVALID
      else if validate_scan code 0 \<noteq> SGX_SUCCESS then SGX_ERROR_CONTRACT_INVALID
      else if code ! (length code - 1) \<noteq> OP_HALT then SGX_ERROR_CONTRACT_INVALID
      else SGX_SUCCESS)"


section \<open>contract_verifier.cpp: one instruction\<close>

type_synonym instr_result = "(sgx_status_t \<times> contract_execution_context_t) access"

definition MEMORY_SIZE :: nat where
  "MEMORY_SIZE = 4096"

text \<open>
  The arithmetic, bitwise and comparison cases share one shape: pop \<open>b\<close>, pop \<open>a\<close>,
  push \<open>f a b\<close>, leaving the \<open>switch\<close> at the first call that fails.
\<close>

definition binop ::
  "(u64 \<Rightarrow> u64 \<Rightarrow> u64) \<Rightarrow> contract_execution_context_t
     \<Rightarrow> sgx_status_t \<times> contract_execution_context_t" where
  "binop f context =
     (case stack_pop (stack context) of
        Inl e \<Rightarrow> (e, context)
      | Inr (b, s1) \<Rightarrow>
          (case stack_pop s1 of
             Inl e \<Rightarrow> (e, context\<lparr>stack := s1\<rparr>)
           | Inr (a, s2) \<Rightarrow>
               (case stack_push s2 (f a b) of
                  Inl e \<Rightarrow> (e, context\<lparr>stack := s2\<rparr>)
                | Inr s3 \<Rightarrow> (SGX_SUCCESS, context\<lparr>stack := s3\<rparr>))))"

text \<open>\<open>OP_DIV\<close> and \<open>OP_MOD\<close> return between the two pops when the divisor is zero.\<close>

definition divop ::
  "(u64 \<Rightarrow> u64 \<Rightarrow> u64) \<Rightarrow> contract_execution_context_t
     \<Rightarrow> sgx_status_t \<times> contract_execution_context_t" where
  "divop f context =
     (case stack_pop (stack context) of
        Inl e \<Rightarrow> (e, context)
      | Inr (b, s1) \<Rightarrow>
          if b = 0 then (SGX_ERROR_CONTRACT_EXECUTION_FAILED, context\<lparr>stack := s1\<rparr>)
          else
            (case stack_pop s1 of
               Inl e \<Rightarrow> (e, context\<lparr>stack := s1\<rparr>)
             | Inr (a, s2) \<Rightarrow>
                 (case stack_push s2 (f a b) of
                    Inl e \<Rightarrow> (e, context\<lparr>stack := s2\<rparr>)
                  | Inr s3 \<Rightarrow> (SGX_SUCCESS, context\<lparr>stack := s3\<rparr>))))"

text \<open>\<open>OP_NOT\<close> and \<open>OP_VERIFY\<close>: pop one word, push one.\<close>

definition unop ::
  "(u64 \<Rightarrow> u64) \<Rightarrow> contract_execution_context_t
     \<Rightarrow> sgx_status_t \<times> contract_execution_context_t" where
  "unop f context =
     (case stack_pop (stack context) of
        Inl e \<Rightarrow> (e, context)
      | Inr (a, s1) \<Rightarrow>
          (case stack_push s1 (f a) of
             Inl e \<Rightarrow> (e, context\<lparr>stack := s1\<rparr>)
           | Inr s2 \<Rightarrow> (SGX_SUCCESS, context\<lparr>stack := s2\<rparr>)))"

definition op_push :: "contract_execution_context_t \<Rightarrow> instr_result" where
  "op_push context =
     (if unat (pc context + 8) \<ge> length (contract_code context)
      then Returns (SGX_ERROR_CONTRACT_EXECUTION_FAILED, context)
      else if unat (pc context) + 8 \<ge> length (contract_code context) then OutOfBounds
      else
        (let result = le_word (take 8 (drop (unat (pc context) + 1) (contract_code context)))
         in case stack_push (stack context) result of
              Inl e \<Rightarrow> Returns (e, context\<lparr>pc := pc context + 8\<rparr>)
            | Inr s1 \<Rightarrow> Returns (SGX_SUCCESS, context\<lparr>stack := s1, pc := pc context + 8\<rparr>)))"

text \<open>
  The taken jump of \<open>OP_JMP\<close> and \<open>OP_JMPIF\<close>. The \<open>memcpy\<close> writes the low four
  bytes of \<open>result\<close>; the high four keep what the uninitialised local held.
\<close>

definition jump :: "platform \<Rightarrow> contract_execution_context_t \<Rightarrow> instr_result" where
  "jump p context =
     (if unat (pc context + 4) \<ge> length (contract_code context)
      then Returns (SGX_ERROR_CONTRACT_EXECUTION_FAILED, context)
      else if unat (pc context) + 4 \<ge> length (contract_code context) then OutOfBounds
      else
        (let result = (uninit p AND 0xFFFFFFFF00000000)
                        OR le_word (take 4 (drop (unat (pc context) + 1) (contract_code context)))
         in if unat result \<ge> length (contract_code context)
            then Returns (SGX_ERROR_CONTRACT_EXECUTION_FAILED, context)
            else Returns (SGX_SUCCESS, context\<lparr>pc := result - 1\<rparr>)))"

definition op_jmpif :: "platform \<Rightarrow> contract_execution_context_t \<Rightarrow> instr_result" where
  "op_jmpif p context =
     (case stack_pop (stack context) of
        Inl e \<Rightarrow> Returns (e, context)
      | Inr (a, s1) \<Rightarrow>
          if a \<noteq> 0 then jump p (context\<lparr>stack := s1\<rparr>)
          else Returns (SGX_SUCCESS, context\<lparr>stack := s1, pc := pc context + 4\<rparr>))"

definition op_load ::
  "contract_execution_context_t \<Rightarrow> sgx_status_t \<times> contract_execution_context_t" where
  "op_load context =
     (case stack_pop (stack context) of
        Inl e \<Rightarrow> (e, context)
      | Inr (a, s1) \<Rightarrow>
          if a \<ge> of_nat MEMORY_SIZE - 8
          then (SGX_ERROR_CONTRACT_EXECUTION_FAILED, context\<lparr>stack := s1\<rparr>)
          else
            (let result = le_word (take 8 (drop (unat a) (memory context)))
             in case stack_push s1 result of
                  Inl e \<Rightarrow> (e, context\<lparr>stack := s1\<rparr>)
                | Inr s2 \<Rightarrow> (SGX_SUCCESS, context\<lparr>stack := s2\<rparr>)))"

definition op_store ::
  "contract_execution_context_t \<Rightarrow> sgx_status_t \<times> contract_execution_context_t" where
  "op_store context =
     (case stack_pop (stack context) of
        Inl e \<Rightarrow> (e, context)
      | Inr (b, s1) \<Rightarrow>
          (case stack_pop s1 of
             Inl e \<Rightarrow> (e, context\<lparr>stack := s1\<rparr>)
           | Inr (a, s2) \<Rightarrow>
               if a \<ge> of_nat MEMORY_SIZE - 8
               then (SGX_ERROR_CONTRACT_EXECUTION_FAILED, context\<lparr>stack := s2\<rparr>)
               else (SGX_SUCCESS,
                     context\<lparr>stack := s2,
                             memory := take (unat a) (memory context) @ le64_bytes b
                                         @ drop (unat a + 8) (memory context)\<rparr>)))"

text \<open>
  \<open>OP_HASH\<close> pops the length \<open>a\<close>, then the address \<open>b\<close>, and tests \<open>b + a\<close>, a
  64-bit sum, against the size of the memory. \<open>sgx_sha256_msg\<close> then reads
  \<open>(uint32_t)a\<close> bytes from \<open>&memory[b]\<close>.
\<close>

definition op_hash :: "contract_execution_context_t \<Rightarrow> instr_result" where
  "op_hash context =
     (case stack_pop (stack context) of
        Inl e \<Rightarrow> Returns (e, context)
      | Inr (a, s1) \<Rightarrow>
          (case stack_pop s1 of
             Inl e \<Rightarrow> Returns (e, context\<lparr>stack := s1\<rparr>)
           | Inr (b, s2) \<Rightarrow>
               if b + a > of_nat MEMORY_SIZE
               then Returns (SGX_ERROR_CONTRACT_EXECUTION_FAILED, context\<lparr>stack := s2\<rparr>)
               else if unat b + unat (ucast a :: u32) > MEMORY_SIZE then OutOfBounds
               else
                 (let hash = sha256 (take (unat (ucast a :: u32))
                                       (drop (unat b) (memory context)));
                      result = le_word (take 8 hash)
                  in case stack_push s2 result of
                       Inl e \<Rightarrow> Returns (e, context\<lparr>stack := s2\<rparr>)
                     | Inr s3 \<Rightarrow> Returns (SGX_SUCCESS, context\<lparr>stack := s3\<rparr>))))"

definition execute_instruction ::
  "platform \<Rightarrow> contract_execution_context_t \<Rightarrow> byte \<Rightarrow> instr_result" where
  "execute_instruction p context opcode =
     (if opcode = OP_NOP then Returns (SGX_SUCCESS, context)
      else if opcode = OP_PUSH then op_push context
      else if opcode = OP_POP then
        (case stack_pop (stack context) of
           Inl e \<Rightarrow> Returns (e, context)
         | Inr (result, s1) \<Rightarrow> Returns (SGX_SUCCESS, context\<lparr>stack := s1\<rparr>))
      else if opcode = OP_ADD then Returns (binop (\<lambda>a b. a + b) context)
      else if opcode = OP_SUB then Returns (binop (\<lambda>a b. a - b) context)
      else if opcode = OP_MUL then Returns (binop (\<lambda>a b. a * b) context)
      else if opcode = OP_DIV then Returns (divop (\<lambda>a b. a div b) context)
      else if opcode = OP_MOD then Returns (divop (\<lambda>a b. a mod b) context)
      else if opcode = OP_AND then Returns (binop (\<lambda>a b. a AND b) context)
      else if opcode = OP_OR then Returns (binop (\<lambda>a b. a OR b) context)
      else if opcode = OP_XOR then Returns (binop (\<lambda>a b. a XOR b) context)
      else if opcode = OP_NOT then Returns (unop (\<lambda>a. NOT a) context)
      else if opcode = OP_EQ then Returns (binop (\<lambda>a b. if a = b then 1 else 0) context)
      else if opcode = OP_LT then Returns (binop (\<lambda>a b. if a < b then 1 else 0) context)
      else if opcode = OP_GT then Returns (binop (\<lambda>a b. if a > b then 1 else 0) context)
      else if opcode = OP_JMP then jump p context
      else if opcode = OP_JMPIF then op_jmpif p context
      else if opcode = OP_LOAD then Returns (op_load context)
      else if opcode = OP_STORE then Returns (op_store context)
      else if opcode = OP_HASH then op_hash context
      else if opcode = OP_VERIFY then Returns (unop (\<lambda>a. 1) context)
      else if opcode = OP_HALT
        then Returns (SGX_SUCCESS, context\<lparr>state := CONTRACT_STATE_COMPLETED\<rparr>)
      else Returns (SGX_ERROR_CONTRACT_EXECUTION_FAILED, context))"

section \<open>contract_verifier.cpp: the execution hash\<close>

text \<open>
  \<open>sgx_sha256_msg\<close> and \<open>sgx_sha256_update\<close> of the SDK take the length of their source
  as a \<open>uint32_t\<close>. \<open>compute_execution_hash\<close> passes them the \<open>size_t\<close> fields
  \<open>code_size\<close>, \<open>input_size\<close> and \<open>result_size\<close>, which the call narrows: of a
  source of \<open>src_len\<close> bytes the first \<open>src_len mod 2 ^ 32\<close> are hashed.
\<close>

definition sgx_sha256_msg :: "byte list \<Rightarrow> nat \<Rightarrow> byte list" where
  "sgx_sha256_msg p_src src_len = sha256 (take (src_len mod 2 ^ 32) p_src)"

text \<open>
  The streaming hasher absorbs the code hash, the input hash when \<open>input_size > 0\<close>, the
  result when \<open>result_size > 0\<close>, and the eight bytes of \<open>gas_used\<close>. The sizes of code
  and input are the lengths of the two lists.
\<close>

definition hashed_message :: "contract_execution_context_t \<Rightarrow> byte list" where
  "hashed_message context =
     sgx_sha256_msg (contract_code context) (length (contract_code context))
     @ (if length (input_data context) > 0
        then sgx_sha256_msg (input_data context) (length (input_data context)) else [])
     @ (case result_data context of
          None \<Rightarrow> []
        | Some buf \<Rightarrow>
            if result_size context > 0 then take (result_size context mod 2 ^ 32) buf else [])
     @ le64_bytes (gas_used context)"

definition compute_execution_hash ::
  "contract_execution_context_t \<Rightarrow> sgx_status_t \<times> byte list" where
  "compute_execution_hash context = (SGX_SUCCESS, sha256 (hashed_message context))"

section \<open>contract_verifier.cpp: the interpreter loop\<close>

definition loop_guard :: "contract_execution_context_t \<Rightarrow> bool" where
  "loop_guard context \<longleftrightarrow>
     state context = CONTRACT_STATE_RUNNING \<and> unat (pc context) < length (contract_code context)"

text \<open>One pass through the body of the \<open>while\<close> loop: it goes on, or leaves by \<open>break\<close>.\<close>

datatype iteration =
    Continue contract_execution_context_t
  | Break sgx_status_t contract_execution_context_t
  | Crash

definition loop_body :: "platform \<Rightarrow> contract_execution_context_t \<Rightarrow> iteration" where
  "loop_body p context =
     (let opcode = contract_code context ! unat (pc context);
          gas_cost = get_opcode_gas_cost opcode
      in if \<not> check_gas context gas_cost
         then Break SGX_ERROR_INSUFFICIENT_GAS (context\<lparr>state := CONTRACT_STATE_OUT_OF_GAS\<rparr>)
         else
           (case execute_instruction p context opcode of
              OutOfBounds \<Rightarrow> Crash
            | Returns (ret, c1) \<Rightarrow>
                if ret \<noteq> SGX_SUCCESS then Break ret (c1\<lparr>state := CONTRACT_STATE_ERROR\<rparr>)
                else
                  (let c2 = snd (consume_gas c1 gas_cost);
                       c3 = c2\<lparr>pc := pc c2 + 1\<rparr>
                   in if opcode = OP_HALT
                      then Break ret (c3\<lparr>state := CONTRACT_STATE_COMPLETED\<rparr>)
                      else Continue c3)))"

fun exec_loop ::
  "platform \<Rightarrow> nat \<Rightarrow> sgx_status_t \<Rightarrow> contract_execution_context_t
     \<Rightarrow> (sgx_status_t \<times> contract_execution_context_t) outcome" where
  "exec_loop p 0 ret context = (if loop_guard context then NoFuel else Done (ret, context))"
| "exec_loop p (Suc n) ret context =
     (if loop_guard context then
        (case loop_body p context of
           Crash \<Rightarrow> Fault
         | Break r c \<Rightarrow> Done (r, c)
         | Continue c \<Rightarrow> exec_loop p n SGX_SUCCESS c)
      else Done (ret, context))"

text \<open>
  The states the loop passes through, for at most \<open>n\<close> iterations: the state at each
  loop head and the state a \<open>break\<close> leaves.
\<close>

fun trace :: "platform \<Rightarrow> nat \<Rightarrow> contract_execution_context_t
                \<Rightarrow> contract_execution_context_t list" where
  "trace p 0 context = [context]"
| "trace p (Suc n) context =
     context #
     (if loop_guard context then
        (case loop_body p context of
           Crash \<Rightarrow> []
         | Break r c \<Rightarrow> [c]
         | Continue c \<Rightarrow> trace p n c)
      else [])"

section \<open>contract_verifier.cpp: execute_contract\<close>

text \<open>The context as the loop finds it, after the assignments, \<open>memset\<close>s and \<open>malloc\<close>.\<close>

definition start_context ::
  "contract_execution_context_t \<Rightarrow> byte list \<Rightarrow> contract_execution_context_t" where
  "start_context context buf =
     context\<lparr>pc := 0, gas_used := 0, state := CONTRACT_STATE_RUNNING,
             stack := \<lparr>stack_data = replicate 256 0, stack_top = 0\<rparr>,
             memory := replicate MEMORY_SIZE 0,
             result_data := Some buf, result_size := 0\<rparr>"

definition execute_contract ::
  "platform \<Rightarrow> nat \<Rightarrow> contract_verifier_t \<Rightarrow> contract_execution_context_t
     \<Rightarrow> (sgx_status_t \<times> contract_verifier_t \<times> contract_execution_context_t) outcome" where
  "execute_contract p fuel verifier context =
     (if \<not> initialized verifier then Done (SGX_ERROR_INVALID_PARAMETER, verifier, context)
      else
        (let ret = validate_contract_code (contract_code context)
         in if ret \<noteq> SGX_SUCCESS then Done (ret, verifier, context)
            else
              (case malloc p MAX_RESULT_SIZE of
                 None \<Rightarrow>
                   Done (SGX_ERROR_OUT_OF_MEMORY, verifier,
                         context\<lparr>pc := 0, gas_used := 0, state := CONTRACT_STATE_RUNNING,
                                 stack := \<lparr>stack_data = replicate 256 0, stack_top = 0\<rparr>,
                                 memory := replicate MEMORY_SIZE 0, result_data := None\<rparr>)
               | Some buf \<Rightarrow>
                   (case exec_loop p fuel ret (start_context context buf) of
                      NoFuel \<Rightarrow> NoFuel
                    | Fault \<Rightarrow> Fault
                    | Done (ret1, c1) \<Rightarrow>
                        (let (ret2, c2) =
                               (if state c1 = CONTRACT_STATE_COMPLETED then
                                  (case compute_execution_hash c1 of
                                     (r, h) \<Rightarrow>
                                       if r \<noteq> SGX_SUCCESS
                                       then (r, c1\<lparr>state := CONTRACT_STATE_ERROR\<rparr>)
                                       else (r, c1\<lparr>execution_hash := h\<rparr>))
                                else (ret1, c1))
                         in Done (ret2,
                                  verifier\<lparr>execution_counter := execution_counter verifier + 1\<rparr>,
                                  c2))))))"


section \<open>enclave.cpp: the boundary call that executes a contract\<close>

record enclave_globals =
  g_verifier_initialized :: bool
  g_verifier :: contract_verifier_t

text \<open>
  The pointer arguments of \<open>ecall_verify_contract_execution\<close>, \<open>None\<close> for a null
  pointer; \<open>code_size\<close> and \<open>input_size\<close> are the lengths of the two lists. The three
  out-parameters hold the host's values before the call and what the call leaves there
  after it.
\<close>

record execution_args =
  arg_contract_code :: "byte list option"
  arg_input_data :: "byte list option"
  arg_execution_result :: "byte list option"
  arg_result_size :: "nat option"
  arg_gas_used :: "u64 option"

text \<open>The local \<open>context\<close> after \<open>memset\<close> and the five assignments.\<close>

definition boundary_context :: "byte list \<Rightarrow> byte list \<Rightarrow> contract_execution_context_t" where
  "boundary_context code input =
     \<lparr>contract_code = code, input_data = input, result_data = None, result_size = 0,
      gas_limit = 1000000, gas_used = 0, pc = 0, state = CONTRACT_STATE_INIT,
      stack = \<lparr>stack_data = replicate 256 0, stack_top = 0\<rparr>,
      memory = replicate MEMORY_SIZE 0, execution_hash = replicate 32 0\<rparr>"

text \<open>
  The calls that print or write the audit log leave the enclave's state alone and are
  left out; so is the hash of the code computed for the log.
\<close>

definition ecall_verify_contract_execution ::
  "platform \<Rightarrow> nat \<Rightarrow> enclave_globals \<Rightarrow> execution_args
     \<Rightarrow> (sgx_status_t \<times> enclave_globals \<times> execution_args) outcome" where
  "ecall_verify_contract_execution p fuel g args =
     (if \<not> g_verifier_initialized g then Done (SGX_ERROR_INVALID_STATE, g, args)
      else
        (case (arg_contract_code args, arg_input_data args, arg_execution_result args,
               arg_result_size args, arg_gas_used args) of
           (Some code, Some input, Some buffer, Some capacity, Some gas) \<Rightarrow>
             (case execute_contract p fuel (g_verifier g) (boundary_context code input) of
                NoFuel \<Rightarrow> NoFuel
              | Fault \<Rightarrow> Fault
              | Done (ret, v, context) \<Rightarrow>
                  (let g' = g\<lparr>g_verifier := v\<rparr>
                   in if ret \<noteq> SGX_SUCCESS then Done (ret, g', args)
                      else if capacity < result_size context
                      then Done (SGX_ERROR_INVALID_PARAMETER, g',
                                 args\<lparr>arg_result_size := Some (result_size context)\<rparr>)
                      else Done (SGX_SUCCESS, g',
                                 args\<lparr>arg_execution_result :=
                                        Some (take (result_size context)
                                                (case result_data context of
                                                   None \<Rightarrow> [] | Some b \<Rightarrow> b)
                                              @ drop (result_size context) buffer),
                                      arg_result_size := Some (result_size context),
                                      arg_gas_used := Some (gas_used context)\<rparr>)))
         | _ \<Rightarrow> Done (SGX_ERROR_INVALID_PARAMETER, g, args)))"

section \<open>enclave.cpp: the boundary call that generates a proof\<close>

text \<open>\<open>execution_proof_t\<close>; keys and signature as their bytes.\<close>

record execution_proof_t =
  proof_execution_hash :: "byte list"
  timestamp :: u64
  nonce :: "byte list"
  public_key :: "byte list"
  signature :: "byte list"

text \<open>
  What the host and the SDK hand to one call of \<open>ecall_generate_execution_proof\<close>: the
  timestamp of the host, the random bytes, the status of opening the ECC context, the
  pair that the key generator of the SDK would create during this call, and the
  signing function.
\<close>

record proof_platform =
  ocall_get_timestamp :: u64
  sgx_read_rand :: "nat \<Rightarrow> sgx_status_t \<times> byte list"
  sgx_ecc256_open_context :: sgx_status_t
  sgx_ecc256_create_key_pair :: "sgx_status_t \<times> byte list \<times> byte list"
  sgx_ecdsa_sign :: "byte list \<Rightarrow> byte list \<Rightarrow> sgx_status_t \<times> byte list"

text \<open>
  Modelled from the spec: the keystore of the enclave. No file of the repository
  declares where the signing key is kept. The spec: the verifier singleton, which
  lives for the enclave's lifetime, "holds the (unsealed) signing key"
  (\<open>signing_key\<close>, \<open>None\<close> until the key is unsealed or generated); the persisted
  "sealed keystore blob at a fixed key: the signing keypair" (\<open>keystore_blob\<close>, \<open>None\<close>
  before the first boot). A pair is the private key and the public key. The blob is
  modelled by the pair it unseals to, after the spec's \<open>unseal (seal b) = b\<close>.
\<close>

record keystore =
  signing_key :: "(byte list \<times> byte list) option"
  keystore_blob :: "(byte list \<times> byte list) option"

text \<open>
  Modelled from the spec: \<open>generate_key_pair\<close> with the two out-parameters
  \<open>private_key\<close> and \<open>public_key\<close>, which \<open>ecall_generate_execution_proof\<close> calls under
  the comment that the enclave's private key signs. The repository has no definition
  of it: crypto_utils.cpp defines \<open>generate_key_pair\<close> with another signature, and
  enclave.h only declares \<open>generate_ec256_key_pair\<close>. The spec: proofs are signed
  "under the enclave's long-term ECDSA-P256 key"; "Signing keypair is generated at first
  boot, sealed at rest"; "unseal or generate long-term ECDSA-P256 keypair"; a failed key
  generation leaves the verifier without a key. So the helper hands out the pair the
  enclave holds; when the enclave holds none it unseals the keystore blob; and when
  there is no blob, at first boot, it has the SDK create a pair, seals it and holds it.
  It returns the status, the two keys, and the keystore it leaves.
\<close>

definition generate_key_pair ::
  "proof_platform \<Rightarrow> keystore \<Rightarrow> (sgx_status_t \<times> byte list \<times> byte list) \<times> keystore" where
  "generate_key_pair w ks =
     (case signing_key ks of
        Some (private_key, pub) \<Rightarrow> ((SGX_SUCCESS, private_key, pub), ks)
      | None \<Rightarrow>
          (case keystore_blob ks of
             Some (private_key, pub) \<Rightarrow>
               ((SGX_SUCCESS, private_key, pub), ks\<lparr>signing_key := Some (private_key, pub)\<rparr>)
           | None \<Rightarrow>
               (case sgx_ecc256_create_key_pair w of
                  (ret, private_key, pub) \<Rightarrow>
                    if ret \<noteq> SGX_SUCCESS then ((ret, [], []), ks)
                    else ((SGX_SUCCESS, private_key, pub),
                          \<lparr>signing_key = Some (private_key, pub),
                           keystore_blob = Some (private_key, pub)\<rparr>))))"

definition PROOF_SIZE :: nat where
  "PROOF_SIZE = 32 + 8 + 16 + 64 + 64"

text \<open>The bytes of the struct in front of its signature, which is what gets signed.\<close>

definition signed_bytes :: "execution_proof_t \<Rightarrow> byte list" where
  "signed_bytes proof =
     proof_execution_hash proof @ le64_bytes (timestamp proof) @ nonce proof @ public_key proof"

text \<open>
  The call itself reads no global of the enclave; the keystore is what
  \<open>generate_key_pair\<close> works on. \<open>hash_in\<close> is the argument \<open>execution_hash\<close>, \<open>None\<close>
  for a null pointer; \<open>proof_buffer\<close> tells whether that pointer is non-null. The
  bytes to sign are copied from the struct before the public key is written to it. The
  call returns the status, the struct copied to the buffer (\<open>None\<close> when nothing is
  copied), the value left in \<open>proof_size\<close>, and the keystore.
\<close>

definition ecall_generate_execution_proof ::
  "proof_platform \<Rightarrow> keystore \<Rightarrow> byte list option \<Rightarrow> bool \<Rightarrow> nat option
     \<Rightarrow> sgx_status_t \<times> execution_proof_t option \<times> nat option \<times> keystore" where
  "ecall_generate_execution_proof w ks hash_in proof_buffer proof_size =
     (case (hash_in, proof_buffer, proof_size) of
        (Some h, True, Some capacity) \<Rightarrow>
          (let proof0 = \<lparr>proof_execution_hash = replicate 32 0, timestamp = 0,
                         nonce = replicate 16 0, public_key = replicate 64 0,
                         signature = replicate 64 0\<rparr>;
               proof1 = proof0\<lparr>proof_execution_hash := take 32 h\<rparr>;
               proof2 = proof1\<lparr>timestamp := ocall_get_timestamp w\<rparr>
           in case sgx_read_rand w 16 of
                (ret, r) \<Rightarrow>
                  if ret \<noteq> SGX_SUCCESS then (ret, None, proof_size, ks)
                  else
                    (let proof3 = proof2\<lparr>nonce := r\<rparr>
                     in if sgx_ecc256_open_context w \<noteq> SGX_SUCCESS
                        then (sgx_ecc256_open_context w, None, proof_size, ks)
                        else
                          (let proof_data = signed_bytes proof3
                           in case generate_key_pair w ks of
                                ((ret, private_key, pub), ks') \<Rightarrow>
                                  if ret \<noteq> SGX_SUCCESS then (ret, None, proof_size, ks')
                                  else
                                    (let proof4 = proof3\<lparr>public_key := pub\<rparr>
                                     in case sgx_ecdsa_sign w proof_data private_key of
                                          (ret, sig) \<Rightarrow>
                                            if ret \<noteq> SGX_SUCCESS
                                            then (ret, None, proof_size, ks')
                                            else
                                              (let proof5 = proof4\<lparr>signature := sig\<rparr>
                                               in if capacity < PROOF_SIZE
                                                  then (SGX_ERROR_INVALID_PARAMETER, None,
                                                        Some PROOF_SIZE, ks')
                                                  else (SGX_SUCCESS, Some proof5,
                                                        Some PROOF_SIZE, ks'))))))
      | _ \<Rightarrow> (SGX_ERROR_INVALID_PARAMETER, None, proof_size, ks))"

section \<open>Notions used in the statements\<close>

text \<open>
  What an instruction leaves alone: code, input, result buffer and size, execution hash,
  gas limit and gas used; \<open>same_io\<close> is the same without the gas used.
\<close>

definition same_frame ::
  "contract_execution_context_t \<Rightarrow> contract_execution_context_t \<Rightarrow> bool" where
  "same_frame c c' \<longleftrightarrow>
     contract_code c' = contract_code c \<and> input_data c' = input_data c
     \<and> result_data c' = result_data c \<and> result_size c' = result_size c
     \<and> execution_hash c' = execution_hash c
     \<and> gas_limit c' = gas_limit c \<and> gas_used c' = gas_used c"

definition same_io ::
  "contract_execution_context_t \<Rightarrow> contract_execution_context_t \<Rightarrow> bool" where
  "same_io c c' \<longleftrightarrow>
     contract_code c' = contract_code c \<and> input_data c' = input_data c
     \<and> result_data c' = result_data c \<and> result_size c' = result_size c
     \<and> execution_hash c' = execution_hash c \<and> gas_limit c' = gas_limit c"

text \<open>The statuses an instruction returns.\<close>

definition instr_status :: "sgx_status_t \<Rightarrow> bool" where
  "instr_status r \<longleftrightarrow>
     r = SGX_SUCCESS \<or> r = SGX_ERROR_INVALID_PARAMETER \<or> r = SGX_ERROR_CONTRACT_EXECUTION_FAILED"

text \<open>The cost of the opcode at the program counter.\<close>

definition next_cost :: "contract_execution_context_t \<Rightarrow> u64" where
  "next_cost c = get_opcode_gas_cost (contract_code c ! unat (pc c))"

text \<open>
  The cost of the next opcode exceeds the gas that remains, as natural numbers.
\<close>

definition exceeds_remaining :: "contract_execution_context_t \<Rightarrow> bool" where
  "exceeds_remaining c \<longleftrightarrow> unat (gas_limit c) - unat (gas_used c) < unat (next_cost c)"

text \<open>The output of a run: the first \<open>result_size\<close> bytes of \<open>result_data\<close>.\<close>

definition output_of :: "contract_execution_context_t \<Rightarrow> byte list" where
  "output_of c = (case result_data c of None \<Rightarrow> [] | Some buf \<Rightarrow> take (result_size c) buf)"

text \<open>
  The calls of \<open>ecall_generate_execution_proof\<close> during one enclave lifetime, in order:
  each call comes with what host and SDK hand to it and its three arguments, and works
  on the keystore the call before it left. The results are the status, the proof and
  the proof size of each call, and the keystore after the last one.
\<close>

type_synonym proof_call = "proof_platform \<times> byte list option \<times> bool \<times> nat option"

fun generate_proofs ::
  "keystore \<Rightarrow> proof_call list
     \<Rightarrow> (sgx_status_t \<times> execution_proof_t option \<times> nat option) list \<times> keystore" where
  "generate_proofs ks [] = ([], ks)"
| "generate_proofs ks ((w, hash_in, proof_buffer, proof_size) # calls) =
     (case ecall_generate_execution_proof w ks hash_in proof_buffer proof_size of
        (ret, the_proof, size', ks') \<Rightarrow>
          (case generate_proofs ks' calls of
             (results, ks'') \<Rightarrow> ((ret, the_proof, size') # results, ks'')))"


section \<open>Concrete programs and platforms\<close>

definition demo_platform :: platform where
  "demo_platform = \<lparr>malloc = (\<lambda>n. Some (replicate n 0)), uninit = 0\<rparr>"

definition demo_verifier :: contract_verifier_t where
  "demo_verifier = \<lparr>initialized = True, execution_counter = 0\<rparr>"

definition demo_globals :: enclave_globals where
  "demo_globals = \<lparr>g_verifier_initialized = True, g_verifier = demo_verifier\<rparr>"

text \<open>PUSH 10, PUSH 20, ADD, HALT.\<close>

definition add_and_halt :: "byte list" where
  "add_and_halt = [0x01, 0x0A, 0, 0, 0, 0, 0, 0, 0, 0x01, 0x14, 0, 0, 0, 0, 0, 0, 0, 0x03, 0xFF]"

text \<open>PUSH 5, PUSH 0, DIV, HALT.\<close>

definition div_by_zero :: "byte list" where
  "div_by_zero = [0x01, 0x05, 0, 0, 0, 0, 0, 0, 0, 0x01, 0, 0, 0, 0, 0, 0, 0, 0, 0x06, 0xFF]"

text \<open>CALL, HALT.\<close>

definition call_and_halt :: "byte list" where
  "call_and_halt = [0x11, 0xFF]"

text \<open>PUSH whose eight operand bytes end the code: no HALT instruction follows it.\<close>

definition push_overrun :: "byte list" where
  "push_overrun = [0x01, 0, 0, 0, 0, 0, 0, 0, 0xFF]"

text \<open>PUSH 0xFFFFFFFFFFFFFFFF (the address), PUSH 1 (the length), HASH, HALT.\<close>

definition hash_wraparound :: "byte list" where
  "hash_wraparound = [0x01, 0xFF, 0xFF, 0xFF, 0xFF, 0xFF, 0xFF, 0xFF, 0xFF,
                      0x01, 0x01, 0, 0, 0, 0, 0, 0, 0, 0x15, 0xFF]"

text \<open>HALT alone.\<close>

definition halt_only :: "byte list" where
  "halt_only = [0xFF]"

text \<open>A context as the boundary call builds it, with a gas limit of one's choice.\<close>

definition context_with_limit ::
  "byte list \<Rightarrow> byte list \<Rightarrow> u64 \<Rightarrow> contract_execution_context_t" where
  "context_with_limit code input limit = (boundary_context code input)\<lparr>gas_limit := limit\<rparr>"

text \<open>
  The arguments of two boundary calls: the host's \<open>gas_used\<close> holds 777 before the
  call, its result buffer 16 bytes 0xAA.
\<close>

definition failing_call_args :: execution_args where
  "failing_call_args =
     \<lparr>arg_contract_code = Some div_by_zero, arg_input_data = Some [],
      arg_execution_result = Some (replicate 16 0xAA), arg_result_size = Some 16,
      arg_gas_used = Some 777\<rparr>"

definition passing_call_args :: execution_args where
  "passing_call_args =
     \<lparr>arg_contract_code = Some add_and_halt, arg_input_data = Some [],
      arg_execution_result = Some (replicate 16 0xAA), arg_result_size = Some 16,
      arg_gas_used = Some 777\<rparr>"

text \<open>
  The same call by a host that leaves 2, less than the 9 gas the program needs, in
  \<open>gas_used\<close> and 0 in \<open>result_size\<close> before the call.
\<close>

definition low_gas_call_args :: execution_args where
  "low_gas_call_args =
     \<lparr>arg_contract_code = Some add_and_halt, arg_input_data = Some [],
      arg_execution_result = Some [], arg_result_size = Some 0,
      arg_gas_used = Some 2\<rparr>"

text \<open>PUSH 5, PUSH 0, DIV, HALT with both pushes executed: the state in which DIV runs.\<close>

definition before_div :: contract_execution_context_t where
  "before_div =
     (start_context (boundary_context div_by_zero []) [])
       \<lparr>stack := \<lparr>stack_data = (replicate 256 0)[0 := 5, 1 := 0], stack_top = 2\<rparr>,
        pc := 18, gas_used := 6\<rparr>"




text \<open>JMP 0, HALT: a jump to itself.\<close>

definition jump_to_self :: "byte list" where
  "jump_to_self = [0x0F, 0, 0, 0, 0, 0xFF]"

section \<open>The validator accepts exactly the codes made of opcode bytes\<close>

declare validate_scan.simps [simp del]

lemma validate_scan_iff:
  "validate_scan code i = SGX_SUCCESS \<longleftrightarrow>
     (\<forall>j. i \<le> j \<and> j < length code \<longrightarrow> code ! j \<in> set case_labels)"
proof (induction code i rule: validate_scan.induct)
  case (1 code i)
  show ?case
  proof (cases "i < length code")
    case False
    then show ?thesis by (auto simp add: validate_scan.simps [of code i])
  next
    case inside: True
    show ?thesis
    proof (cases "code ! i \<in> set case_labels")
      case True
      have "validate_scan code i = validate_scan code (i + 1)"
        using inside True by (simp add: validate_scan.simps [of code i])
      moreover have "validate_scan code (i + 1) = SGX_SUCCESS \<longleftrightarrow>
          (\<forall>j. i + 1 \<le> j \<and> j < length code \<longrightarrow> code ! j \<in> set case_labels)"
        using "1.IH"(1) [OF inside refl True] .
      moreover have "(\<forall>j. i \<le> j \<and> j < length code \<longrightarrow> code ! j \<in> set case_labels) \<longleftrightarrow>
          (\<forall>j. i + 1 \<le> j \<and> j < length code \<longrightarrow> code ! j \<in> set case_labels)"
      proof
        assume h: "\<forall>j. i + 1 \<le> j \<and> j < length code \<longrightarrow> code ! j \<in> set case_labels"
        show "\<forall>j. i \<le> j \<and> j < length code \<longrightarrow> code ! j \<in> set case_labels"
        proof (intro allI impI)
          fix j assume "i \<le> j \<and> j < length code"
          then show "code ! j \<in> set case_labels"
            using h True by (cases "j = i") auto
        qed
      qed auto
      ultimately show ?thesis by simp
    next
      case False
      then have "code ! i \<noteq> OP_PUSH" "code ! i \<noteq> OP_JMP" "code ! i \<noteq> OP_JMPIF"
        by (auto simp: case_labels_def)
      then have "validate_scan code i = SGX_ERROR_CONTRACT_INVALID"
        using inside False by (simp add: validate_scan.simps [of code i])
      then show ?thesis using inside False by auto
    qed
  qed
qed

lemma validate_contract_code_iff:
  "validate_contract_code code = SGX_SUCCESS \<longleftrightarrow>
     code \<noteq> [] \<and> length code \<le> MAX_CONTRACT_SIZE \<and> set code \<subseteq> set case_labels
     \<and> last code = OP_HALT"
proof -
  have "(\<forall>j. 0 \<le> j \<and> j < length code \<longrightarrow> code ! j \<in> set case_labels)
          \<longleftrightarrow> set code \<subseteq> set case_labels"
  proof
    assume "\<forall>j. 0 \<le> j \<and> j < length code \<longrightarrow> code ! j \<in> set case_labels"
    then show "set code \<subseteq> set case_labels"
      by (metis in_set_conv_nth le0 subsetI)
  next
    assume "set code \<subseteq> set case_labels"
    then show "\<forall>j. 0 \<le> j \<and> j < length code \<longrightarrow> code ! j \<in> set case_labels"
      using nth_mem by blast
  qed
  then have scan: "validate_scan code 0 = SGX_SUCCESS \<longleftrightarrow> set code \<subseteq> set case_labels"
    using validate_scan_iff [of code 0] by simp
  show ?thesis
  proof (cases "code = []")
    case True
    then show ?thesis by (simp add: validate_contract_code_def)
  next
    case False
    then have "code ! (length code - 1) = last code"
      by (simp add: last_conv_nth)
    then show ?thesis
      using False scan by (auto simp: validate_contract_code_def)
  qed
qed

text \<open>
  Claim C2, as the code has it. The validator accepts only a non-empty code of at most
  1 MiB whose last byte is HALT. It checks no jump target and has a case label for CALL
  and for RET: a code of that size without PUSH, JMP and JMPIF, hence without operand
  bytes, is accepted if and only if each of its bytes is one of the 24 opcodes of the
  enum, CALL and RET among them, and its last byte is HALT.
\<close>

theorem validator_accepts_opcode_bytes:
  "(validate_contract_code code = SGX_SUCCESS \<longrightarrow>
      code \<noteq> [] \<and> length code \<le> MAX_CONTRACT_SIZE \<and> last code = OP_HALT)
   \<and> (code \<noteq> [] \<and> length code \<le> MAX_CONTRACT_SIZE
        \<and> OP_PUSH \<notin> set code \<and> OP_JMP \<notin> set code \<and> OP_JMPIF \<notin> set code \<longrightarrow>
        (validate_contract_code code = SGX_SUCCESS \<longleftrightarrow>
           set code \<subseteq> set case_labels \<and> last code = OP_HALT))
   \<and> OP_CALL \<in> set case_labels \<and> OP_RET \<in> set case_labels"
  using validate_contract_code_iff [of code] by (simp add: case_labels_def)

text \<open>Witness for C2: the code CALL, HALT meets every hypothesis and is accepted.\<close>

theorem validator_accepts_opcode_bytes_witness:
  "validate_contract_code call_and_halt = SGX_SUCCESS
   \<and> call_and_halt \<noteq> [] \<and> length call_and_halt \<le> MAX_CONTRACT_SIZE
   \<and> OP_PUSH \<notin> set call_and_halt \<and> OP_JMP \<notin> set call_and_halt \<and> OP_JMPIF \<notin> set call_and_halt
   \<and> set call_and_halt \<subseteq> set case_labels \<and> last call_and_halt = OP_HALT"
  using validator_accepts_opcode_bytes [of call_and_halt]
  by (simp add: call_and_halt_def MAX_CONTRACT_SIZE_def case_labels_def)

text \<open>
  Counterexample to C2 as stated: the validator accepts CALL, HALT although its first
  opcode is CALL, and it rejects PUSH 42, HALT, whose operand lies inside the code and
  whose last opcode is HALT, because the operand byte 0x2A is no opcode.
\<close>

theorem validator_accepts_call_counterexample:
  "validate_contract_code call_and_halt = SGX_SUCCESS \<and> call_and_halt ! 0 = OP_CALL
   \<and> validate_contract_code [0x01, 0x2A, 0, 0, 0, 0, 0, 0, 0, 0xFF] = SGX_ERROR_CONTRACT_INVALID"
  by (simp add: validate_contract_code_def validate_scan.simps call_and_halt_def
        MAX_CONTRACT_SIZE_def case_labels_def)

section \<open>What one instruction and one iteration change\<close>

lemma same_frame_refl [simp]: "same_frame c c"
  by (simp add: same_frame_def)

lemma stack_push_Inl: "stack_push s v = Inl e \<Longrightarrow> e = SGX_ERROR_INVALID_PARAMETER"
  by (auto simp: stack_push_def split: if_splits)

lemma stack_pop_Inl: "stack_pop s = Inl e \<Longrightarrow> e = SGX_ERROR_INVALID_PARAMETER"
  by (auto simp: stack_pop_def split: if_splits)

lemma binop_frame:
  "binop f c = (r, c') \<Longrightarrow> same_frame c c' \<and> state c' = state c \<and> instr_status r"
  by (auto simp: binop_def same_frame_def instr_status_def
           dest: stack_push_Inl stack_pop_Inl split: sum.splits prod.splits)

lemma divop_frame:
  "divop f c = (r, c') \<Longrightarrow> same_frame c c' \<and> state c' = state c \<and> instr_status r"
  by (auto simp: divop_def same_frame_def instr_status_def
           dest: stack_push_Inl stack_pop_Inl split: sum.splits prod.splits if_splits)

lemma unop_frame:
  "unop f c = (r, c') \<Longrightarrow> same_frame c c' \<and> state c' = state c \<and> instr_status r"
  by (auto simp: unop_def same_frame_def instr_status_def
           dest: stack_push_Inl stack_pop_Inl split: sum.splits prod.splits)

lemma op_push_frame:
  "op_push c = Returns (r, c') \<Longrightarrow> same_frame c c' \<and> state c' = state c \<and> instr_status r"
  by (auto simp: op_push_def same_frame_def instr_status_def Let_def
           dest: stack_push_Inl split: sum.splits if_splits)

lemma jump_frame:
  "jump p c = Returns (r, c') \<Longrightarrow> same_frame c c' \<and> state c' = state c \<and> instr_status r"
  by (auto simp: jump_def same_frame_def instr_status_def Let_def split: if_splits)

lemma op_jmpif_frame:
  "op_jmpif p c = Returns (r, c') \<Longrightarrow> same_frame c c' \<and> state c' = state c \<and> instr_status r"
  by (auto simp: op_jmpif_def same_frame_def instr_status_def
           dest: stack_pop_Inl dest!: jump_frame split: sum.splits prod.splits if_splits)

lemma op_load_frame:
  "op_load c = (r, c') \<Longrightarrow> same_frame c c' \<and> state c' = state c \<and> instr_status r"
  by (auto simp: op_load_def same_frame_def instr_status_def Let_def
           dest: stack_push_Inl stack_pop_Inl split: sum.splits prod.splits if_splits)

lemma op_store_frame:
  "op_store c = (r, c') \<Longrightarrow> same_frame c c' \<and> state c' = state c \<and> instr_status r"
  by (auto simp: op_store_def same_frame_def instr_status_def
           dest: stack_pop_Inl split: sum.splits prod.splits if_splits)

lemma op_hash_frame:
  "op_hash c = Returns (r, c') \<Longrightarrow> same_frame c c' \<and> state c' = state c \<and> instr_status r"
  by (auto simp: op_hash_def same_frame_def instr_status_def Let_def
           dest: stack_push_Inl stack_pop_Inl split: sum.splits prod.splits if_splits)

lemma execute_instruction_frame:
  assumes "execute_instruction p c opcode = Returns (r, c')"
  shows "same_frame c c'" and "instr_status r"
    and "opcode \<noteq> OP_HALT \<Longrightarrow> state c' = state c"
    and "opcode = OP_HALT \<Longrightarrow> r = SGX_SUCCESS \<and> state c' = CONTRACT_STATE_COMPLETED"
  using assms
  by (auto simp: execute_instruction_def same_frame_def instr_status_def
           dest: stack_pop_Inl
           dest!: binop_frame divop_frame unop_frame op_push_frame jump_frame op_jmpif_frame
                  op_load_frame op_store_frame op_hash_frame
           split: if_splits sum.splits prod.splits)

lemma same_io_refl [simp]: "same_io c c"
  by (simp add: same_io_def)

lemma same_io_trans: "same_io a b \<Longrightarrow> same_io b c \<Longrightarrow> same_io a c"
  by (simp add: same_io_def)

lemma same_frame_io: "same_frame c c' \<Longrightarrow> same_io c c'"
  by (simp add: same_frame_def same_io_def)

lemma loop_body_Continue:
  assumes "loop_body p c = Continue c'"
  shows "check_gas c (next_cost c)" and "same_io c c'"
    and "gas_used c' = gas_used c + next_cost c" and "state c' = state c"
    and "contract_code c ! unat (pc c) \<noteq> OP_HALT"
proof -
  let ?op = "contract_code c ! unat (pc c)"
  from assms show chk: "check_gas c (next_cost c)"
    by (auto simp: loop_body_def next_cost_def Let_def split: if_splits)
  from assms chk obtain c1 where
    ex: "execute_instruction p c ?op = Returns (SGX_SUCCESS, c1)"
    and c': "c' = (snd (consume_gas c1 (next_cost c)))\<lparr>pc := pc (snd (consume_gas c1 (next_cost c))) + 1\<rparr>"
    and nh: "?op \<noteq> OP_HALT"
    by (auto simp: loop_body_def next_cost_def Let_def split: if_splits access.splits prod.splits)
  from nh show "?op \<noteq> OP_HALT" .
  from execute_instruction_frame [OF ex] nh
  have fr: "same_frame c c1" and st: "state c1 = state c" by auto
  from fr chk have chk1: "check_gas c1 (next_cost c)"
    by (simp add: check_gas_def same_frame_def)
  from fr chk1 c' show "same_io c c'"
    by (simp add: consume_gas_def same_frame_def same_io_def)
  from fr chk1 c' show "gas_used c' = gas_used c + next_cost c"
    by (simp add: consume_gas_def same_frame_def)
  from st chk1 c' show "state c' = state c"
    by (simp add: consume_gas_def)
qed

lemma loop_body_Break:
  assumes "loop_body p c = Break r c'"
  shows "(\<not> check_gas c (next_cost c) \<and> r = SGX_ERROR_INSUFFICIENT_GAS
            \<and> c' = c\<lparr>state := CONTRACT_STATE_OUT_OF_GAS\<rparr>)
         \<or> (check_gas c (next_cost c) \<and> r \<noteq> SGX_SUCCESS \<and> instr_status r
            \<and> state c' = CONTRACT_STATE_ERROR \<and> same_frame c c')
         \<or> (check_gas c (next_cost c) \<and> r = SGX_SUCCESS
            \<and> contract_code c ! unat (pc c) = OP_HALT
            \<and> state c' = CONTRACT_STATE_COMPLETED \<and> same_io c c'
            \<and> gas_used c' = gas_used c + next_cost c)"
proof (cases "check_gas c (next_cost c)")
  case False
  with assms show ?thesis
    by (auto simp: loop_body_def next_cost_def Let_def)
next
  case chk: True
  let ?op = "contract_code c ! unat (pc c)"
  from assms chk obtain r1 c1 where ex: "execute_instruction p c ?op = Returns (r1, c1)"
    by (auto simp: loop_body_def next_cost_def Let_def split: access.splits)
  note fr = execute_instruction_frame [OF ex]
  show ?thesis
  proof (cases "r1 = SGX_SUCCESS")
    case False
    with assms chk ex have "r = r1" "c' = c1\<lparr>state := CONTRACT_STATE_ERROR\<rparr>"
      by (auto simp: loop_body_def next_cost_def Let_def)
    with False fr(1,2) chk show ?thesis
      by (simp add: same_frame_def)
  next
    case True
    with assms chk ex have halt: "?op = OP_HALT" and r: "r = SGX_SUCCESS"
      and c': "c' = (snd (consume_gas c1 (next_cost c)))
                      \<lparr>pc := pc (snd (consume_gas c1 (next_cost c))) + 1,
                       state := CONTRACT_STATE_COMPLETED\<rparr>"
      by (auto simp: loop_body_def next_cost_def Let_def split: if_splits)
    from fr(1) chk have chk1: "check_gas c1 (next_cost c)"
      by (simp add: check_gas_def same_frame_def)
    from fr(1) chk1 c' have "same_io c c'" "gas_used c' = gas_used c + next_cost c"
      "state c' = CONTRACT_STATE_COMPLETED"
      by (simp_all add: consume_gas_def same_frame_def same_io_def)
    with chk halt r show ?thesis by simp
  qed
qed

section \<open>Gas along a run\<close>

lemma GAS_COSTS_le: "i < 256 \<Longrightarrow> GAS_COSTS ! i \<le> 5"
proof -
  assume "i < 256"
  then have "GAS_COSTS ! i =
      (if i = 255 then 0 else if i = 5 then 5 else if i = 4 then 3 else if i = 3 then 3
       else if i = 2 then 2 else if i = 1 then 3 else if i = 0 then 1 else 0)"
    unfolding GAS_COSTS_def by (simp add: nth_list_update)
  then show ?thesis by simp
qed

lemma get_opcode_gas_cost_le: "get_opcode_gas_cost opcode \<le> 5"
proof -
  have "unat opcode < 2 ^ LENGTH(8)"
    by (rule unsigned_less)
  then have "unat opcode < 256" by simp
  moreover have "length GAS_COSTS = 256" by (simp add: GAS_COSTS_def)
  ultimately show ?thesis
    by (simp add: get_opcode_gas_cost_def GAS_COSTS_le)
qed

lemma next_cost_le: "unat (next_cost c) \<le> 5"
proof -
  have "next_cost c \<le> 5" by (simp add: next_cost_def get_opcode_gas_cost_le)
  then have "unat (next_cost c) \<le> unat (5 :: u64)" by (simp add: word_le_nat_alt)
  then show ?thesis by simp
qed

lemma check_gas_iff:
  assumes "gas_used c \<le> gas_limit c" and "unat (gas_limit c) \<le> 2 ^ 64 - 6"
  shows "check_gas c (next_cost c) \<longleftrightarrow> \<not> exceeds_remaining c"
proof -
  have u: "unat (gas_used c) \<le> unat (gas_limit c)"
    using assms(1) by (simp add: word_le_nat_alt)
  with assms(2) next_cost_le [of c]
  have "unat (gas_used c) + unat (next_cost c) < 2 ^ LENGTH(64)" by simp
  then have "unat (gas_used c + next_cost c) = unat (gas_used c) + unat (next_cost c)"
    by (rule unat_add_lem [THEN iffD1])
  then show ?thesis
    using u by (auto simp: check_gas_def exceeds_remaining_def word_le_nat_alt)
qed

lemma trace_head: "c0 \<in> set (trace p n c0)"
  by (cases n) simp_all

lemma trace_invariant:
  assumes "c \<in> set (trace p n c0)" and "gas_used c0 \<le> gas_limit c0"
  shows "gas_used c \<le> gas_limit c \<and> same_io c0 c"
  using assms
proof (induction n arbitrary: c0)
  case 0
  then show ?case by simp
next
  case (Suc n)
  show ?case
  proof (cases "c = c0")
    case True
    with Suc.prems show ?thesis by simp
  next
    case False
    with Suc.prems have g: "loop_guard c0" by (auto split: if_splits)
    show ?thesis
    proof (cases "loop_body p c0")
      case (Continue c1)
      with Suc.prems False g have mem: "c \<in> set (trace p n c1)" by simp
      note k = loop_body_Continue [OF Continue]
      from k(1,2,3) have "gas_used c1 \<le> gas_limit c1"
        by (simp add: check_gas_def same_io_def)
      from Suc.IH [OF mem this] k(2) show ?thesis
        by (auto intro: same_io_trans)
    next
      case (Break r c1)
      with Suc.prems False g have "c = c1" by simp
      with loop_body_Break [OF Break] Suc.prems(2) show ?thesis
        by (auto simp: check_gas_def same_io_def same_frame_def)
    next
      case Crash
      with Suc.prems False g show ?thesis by simp
    qed
  qed
qed

lemma exec_loop_out_of_gas_iff:
  assumes "exec_loop p n ret c0 = Done (r, c')"
    and "state c0 = CONTRACT_STATE_RUNNING"
    and "gas_used c0 \<le> gas_limit c0" and "unat (gas_limit c0) \<le> 2 ^ 64 - 6"
  shows "state c' = CONTRACT_STATE_OUT_OF_GAS \<longleftrightarrow>
           (\<exists>c \<in> set (trace p n c0). loop_guard c \<and> exceeds_remaining c)"
  using assms
proof (induction n arbitrary: c0 ret)
  case 0
  then show ?case by (auto split: if_splits)
next
  case (Suc n)
  show ?case
  proof (cases "loop_guard c0")
    case False
    with Suc.prems show ?thesis by auto
  next
    case g: True
    note chk = check_gas_iff [OF Suc.prems(3,4)]
    show ?thesis
    proof (cases "loop_body p c0")
      case (Continue c1)
      note k = loop_body_Continue [OF Continue]
      from Suc.prems(1) g Continue have run: "exec_loop p n SGX_SUCCESS c1 = Done (r, c')"
        by simp
      from k Suc.prems have pre: "state c1 = CONTRACT_STATE_RUNNING"
        "gas_used c1 \<le> gas_limit c1" "unat (gas_limit c1) \<le> 2 ^ 64 - 6"
        by (simp_all add: check_gas_def same_io_def)
      from Suc.IH [OF run pre] k(1) chk g Continue show ?thesis by auto
    next
      case (Break r1 c1)
      with Suc.prems(1) g have c': "c' = c1" by simp
      from loop_body_Break [OF Break] Suc.prems(2)
      have "state c1 \<noteq> CONTRACT_STATE_RUNNING"
        and "state c1 = CONTRACT_STATE_OUT_OF_GAS \<longleftrightarrow> \<not> check_gas c0 (next_cost c0)"
        by auto
      with c' chk g Break show ?thesis by (auto simp: loop_guard_def)
    next
      case Crash
      with Suc.prems(1) g show ?thesis by simp
    qed
  qed
qed

lemma exec_loop_unfold:
  "exec_loop p n ret c =
     (if loop_guard c then
        (if n = 0 then NoFuel
         else (case loop_body p c of
                 Continue c' \<Rightarrow> exec_loop p (n - 1) SGX_SUCCESS c'
               | Break r c' \<Rightarrow> Done (r, c')
               | Crash \<Rightarrow> Fault))
      else Done (ret, c))"
  by (cases n) (auto split: iteration.splits)

lemma gas_cost_values:
  "get_opcode_gas_cost OP_NOP = 1" "get_opcode_gas_cost OP_PUSH = 3"
  "get_opcode_gas_cost OP_POP = 2" "get_opcode_gas_cost OP_ADD = 3"
  "get_opcode_gas_cost OP_SUB = 3" "get_opcode_gas_cost OP_MUL = 5"
  "get_opcode_gas_cost OP_DIV = 0" "get_opcode_gas_cost OP_MOD = 0"
  "get_opcode_gas_cost OP_HASH = 0" "get_opcode_gas_cost OP_HALT = 0"
  by (simp_all add: get_opcode_gas_cost_def GAS_COSTS_def)

lemmas run_defs =
  loop_guard_def loop_body_def execute_instruction_def op_push_def binop_def divop_def unop_def
  op_hash_def stack_push_def stack_pop_def stack_is_full_def stack_is_empty_def
  check_gas_def consume_gas_def start_context_def boundary_context_def context_with_limit_def
  le_word_def next_cost_def gas_cost_values [simplified]

lemma start_context_pre:
  "state (start_context context buf) = CONTRACT_STATE_RUNNING"
  "gas_used (start_context context buf) \<le> gas_limit (start_context context buf)"
  "gas_limit (start_context context buf) = gas_limit context"
  by (simp_all add: start_context_def)

text \<open>
  Claim C5. Take the loop of \<open>execute_contract\<close> from the context it starts in. In every
  state the loop passes through, \<open>gas_used \<le> gas_limit\<close>. When the gas limit is at most
  \<open>2^64 - 6\<close>, so that the 64-bit sum of \<open>gas_used\<close> and a cost (at most 5) cannot
  wrap: a charge whose cost exceeds the remaining gas fails and leaves the context,
  \<open>gas_used\<close> included, as it was, and the iteration ends the loop in \<open>OUT_OF_GAS\<close>;
  and a run that returns ends in \<open>OUT_OF_GAS\<close> if and only if it reached a loop head
  where the cost of the next opcode exceeded the remaining gas. The context of the
  boundary call, the one caller of \<open>execute_contract\<close>, has such a limit.
\<close>
theorem gas_used_within_limit:
  "(\<forall>c \<in> set (trace p n (start_context context buf)).
      gas_used c \<le> gas_limit c
      \<and> (unat (gas_limit context) \<le> 2 ^ 64 - 6 \<and> loop_guard c \<and> exceeds_remaining c \<longrightarrow>
           consume_gas c (next_cost c) = (SGX_ERROR_INSUFFICIENT_GAS, c)
           \<and> loop_body p c
               = Break SGX_ERROR_INSUFFICIENT_GAS (c\<lparr>state := CONTRACT_STATE_OUT_OF_GAS\<rparr>)))
   \<and> (unat (gas_limit context) \<le> 2 ^ 64 - 6
        \<and> exec_loop p n SGX_SUCCESS (start_context context buf) = Done (r, c') \<longrightarrow>
        (state c' = CONTRACT_STATE_OUT_OF_GAS \<longleftrightarrow>
           (\<exists>c \<in> set (trace p n (start_context context buf)).
              loop_guard c \<and> exceeds_remaining c)))
   \<and> unat (gas_limit (boundary_context code input)) \<le> 2 ^ 64 - 6"
proof (intro conjI ballI impI)
  show "unat (gas_limit (boundary_context code input)) \<le> 2 ^ 64 - 6"
    by (simp add: boundary_context_def)
next
  fix c assume mem: "c \<in> set (trace p n (start_context context buf))"
  note inv = trace_invariant [OF mem start_context_pre(2)]
  from inv show "gas_used c \<le> gas_limit c" by simp
  assume h: "unat (gas_limit context) \<le> 2 ^ 64 - 6 \<and> loop_guard c \<and> exceeds_remaining c"
  from inv have "gas_limit c = gas_limit context"
    by (simp add: same_io_def start_context_pre(3))
  with h inv have no: "\<not> check_gas c (next_cost c)"
    using check_gas_iff [of c] by simp
  then show "consume_gas c (next_cost c) = (SGX_ERROR_INSUFFICIENT_GAS, c)"
    by (simp add: consume_gas_def)
  from no show "loop_body p c
      = Break SGX_ERROR_INSUFFICIENT_GAS (c\<lparr>state := CONTRACT_STATE_OUT_OF_GAS\<rparr>)"
    by (simp add: loop_body_def next_cost_def Let_def)
next
  assume h: "unat (gas_limit context) \<le> 2 ^ 64 - 6
      \<and> exec_loop p n SGX_SUCCESS (start_context context buf) = Done (r, c')"
  then have "unat (gas_limit (start_context context buf)) \<le> 2 ^ 64 - 6"
    by (simp add: start_context_pre(3))
  with h show "state c' = CONTRACT_STATE_OUT_OF_GAS \<longleftrightarrow>
      (\<exists>c \<in> set (trace p n (start_context context buf)). loop_guard c \<and> exceeds_remaining c)"
    using exec_loop_out_of_gas_iff [OF _ start_context_pre(1,2)] by blast
qed

text \<open>
  Witness for C5: PUSH 10, PUSH 20, ADD, HALT under a gas limit of 2. The first PUSH
  costs 3, the charge fails, and the run ends in \<open>OUT_OF_GAS\<close> with \<open>gas_used = 0\<close>.
\<close>

theorem gas_used_within_limit_witness:
  "start_context (context_with_limit add_and_halt [] 2) []
     \<in> set (trace demo_platform (Suc 0) (start_context (context_with_limit add_and_halt [] 2) []))
   \<and> unat (gas_limit (context_with_limit add_and_halt [] 2)) \<le> 2 ^ 64 - 6
   \<and> loop_guard (start_context (context_with_limit add_and_halt [] 2) [])
   \<and> exceeds_remaining (start_context (context_with_limit add_and_halt [] 2) [])
   \<and> loop_body demo_platform (start_context (context_with_limit add_and_halt [] 2) [])
       = Break SGX_ERROR_INSUFFICIENT_GAS
           ((start_context (context_with_limit add_and_halt [] 2) [])
              \<lparr>state := CONTRACT_STATE_OUT_OF_GAS\<rparr>)
   \<and> exec_loop demo_platform (Suc 0) SGX_SUCCESS
         (start_context (context_with_limit add_and_halt [] 2) [])
       = Done (SGX_ERROR_INSUFFICIENT_GAS,
               (start_context (context_with_limit add_and_halt [] 2) [])
                 \<lparr>state := CONTRACT_STATE_OUT_OF_GAS\<rparr>)
   \<and> gas_used ((start_context (context_with_limit add_and_halt [] 2) [])
                 \<lparr>state := CONTRACT_STATE_OUT_OF_GAS\<rparr>) = 0"
  using gas_used_within_limit [of demo_platform "Suc 0" "context_with_limit add_and_halt [] 2" "[]"
      SGX_ERROR_INSUFFICIENT_GAS
      "(start_context (context_with_limit add_and_halt [] 2) [])\<lparr>state := CONTRACT_STATE_OUT_OF_GAS\<rparr>"]
  by (simp add: run_defs exceeds_remaining_def add_and_halt_def)

text \<open>
  Where the bound on the limit is used: with \<open>gas_used = gas_limit = 2^64 - 1\<close> the sum
  with a cost of 1 wraps to 0 and the charge succeeds. Such a state needs a gas limit
  within 5 of \<open>2^64\<close> and that much gas used; the boundary call sets 1,000,000.
\<close>

lemma charge_wraps_near_top:
  "check_gas ((boundary_context code input)\<lparr>gas_limit := - 1, gas_used := - 1\<rparr>) 1
   \<and> consume_gas ((boundary_context code input)\<lparr>gas_limit := - 1, gas_used := - 1\<rparr>) 1
       = (SGX_SUCCESS, (boundary_context code input)\<lparr>gas_limit := - 1, gas_used := 0\<rparr>)"
  by (simp add: check_gas_def consume_gas_def)

section \<open>How a run ends\<close>

lemma exec_loop_in_trace:
  "exec_loop p n ret c0 = Done (r, c') \<Longrightarrow> c' \<in> set (trace p n c0)"
proof (induction n arbitrary: c0 ret)
  case 0
  then show ?case by (auto split: if_splits)
next
  case (Suc n)
  then show ?case
    by (cases "loop_body p c0") (auto split: if_splits)
qed

lemma exec_loop_past_end:
  "\<not> unat (pc c) < length (contract_code c) \<Longrightarrow> exec_loop p n ret c = Done (ret, c)"
  by (cases n) (simp_all add: loop_guard_def)

lemma exec_loop_Done:
  assumes "exec_loop p n SGX_SUCCESS c0 = Done (r, c')"
    and "state c0 = CONTRACT_STATE_RUNNING"
  shows "(state c' = CONTRACT_STATE_RUNNING \<and> r = SGX_SUCCESS
            \<and> \<not> unat (pc c') < length (contract_code c'))
         \<or> (state c' = CONTRACT_STATE_COMPLETED \<and> r = SGX_SUCCESS)
         \<or> (state c' = CONTRACT_STATE_ERROR \<and> r \<noteq> SGX_SUCCESS \<and> instr_status r)
         \<or> (state c' = CONTRACT_STATE_OUT_OF_GAS \<and> r = SGX_ERROR_INSUFFICIENT_GAS)"
  using assms
proof (induction n arbitrary: c0)
  case 0
  then show ?case by (auto simp: loop_guard_def split: if_splits)
next
  case (Suc n)
  show ?case
  proof (cases "loop_guard c0")
    case False
    with Suc.prems show ?thesis by (auto simp: loop_guard_def)
  next
    case g: True
    show ?thesis
    proof (cases "loop_body p c0")
      case (Continue c1)
      from Suc.prems(1) g Continue have run: "exec_loop p n SGX_SUCCESS c1 = Done (r, c')"
        by simp
      from loop_body_Continue(4) [OF Continue] Suc.prems(2)
      have "state c1 = CONTRACT_STATE_RUNNING" by simp
      from Suc.IH [OF run this] show ?thesis .
    next
      case (Break r1 c1)
      with Suc.prems(1) g have "r = r1" "c' = c1" by simp_all
      with loop_body_Break [OF Break] show ?thesis by auto
    next
      case Crash
      with Suc.prems(1) g show ?thesis by simp
    qed
  qed
qed

text \<open>
  A run need not return: JMP costs no gas, and a jump to itself (the platform leaving
  zero in the high half of the target) passes the validator and never leaves the loop.
\<close>

lemma jump_to_self_iteration:
  "loop_body demo_platform (start_context (boundary_context jump_to_self input) buf)
     = Continue (start_context (boundary_context jump_to_self input) buf)"
  by (simp add: run_defs jump_def jump_to_self_def demo_platform_def
        get_opcode_gas_cost_def GAS_COSTS_def)

lemma jump_to_self_never_returns:
  "validate_contract_code jump_to_self = SGX_SUCCESS
   \<and> exec_loop demo_platform n ret (start_context (boundary_context jump_to_self input) buf)
       = NoFuel"
proof
  show "validate_contract_code jump_to_self = SGX_SUCCESS"
    by (simp add: validate_contract_code_def validate_scan.simps case_labels_def
          MAX_CONTRACT_SIZE_def jump_to_self_def)
  have g: "loop_guard (start_context (boundary_context jump_to_self input) buf)"
    by (simp add: loop_guard_def start_context_def boundary_context_def jump_to_self_def)
  show "exec_loop demo_platform n ret (start_context (boundary_context jump_to_self input) buf)
       = NoFuel"
    by (induction n arbitrary: ret) (simp_all add: g jump_to_self_iteration)
qed

lemma start_context_io:
  "contract_code (start_context context buf) = contract_code context"
  "input_data (start_context context buf) = input_data context"
  "execution_hash (start_context context buf) = execution_hash context"
  "result_size (start_context context buf) = 0"
  "result_data (start_context context buf) = Some buf"
  by (simp_all add: start_context_def)

text \<open>
  What a call of \<open>execute_contract\<close> that gets as far as the loop returns, in terms of
  the state \<open>c1\<close> in which the loop ends.
\<close>

lemma execute_contract_Done:
  assumes "execute_contract p n v context = Done (r, v', c')"
    and "initialized v" and "validate_contract_code (contract_code context) = SGX_SUCCESS"
    and "malloc p MAX_RESULT_SIZE = Some buf"
  shows "\<exists>r1 c1. exec_loop p n SGX_SUCCESS (start_context context buf) = Done (r1, c1)
           \<and> (state c1 = CONTRACT_STATE_COMPLETED \<longrightarrow>
                 r = SGX_SUCCESS \<and> c' = c1\<lparr>execution_hash := sha256 (hashed_message c1)\<rparr>)
           \<and> (state c1 \<noteq> CONTRACT_STATE_COMPLETED \<longrightarrow> r = r1 \<and> c' = c1)"
  using assms
  by (auto simp: execute_contract_def compute_execution_hash_def Let_def
           split: outcome.splits if_splits prod.splits)

lemma exec_loop_same_io:
  assumes "exec_loop p n ret (start_context context buf) = Done (r, c1)"
  shows "contract_code c1 = contract_code context" "input_data c1 = input_data context"
    "execution_hash c1 = execution_hash context" "result_size c1 = 0"
    "result_data c1 = Some buf" "gas_limit c1 = gas_limit context"
    "gas_used c1 \<le> gas_limit c1"
  using trace_invariant [OF exec_loop_in_trace [OF assms] start_context_pre(2)]
  by (auto simp: same_io_def start_context_io start_context_pre(3))

text \<open>
  Claim C8, as the code has it. When the program counter is at or past the end of the
  code the loop returns at once and changes nothing: a \<open>RUNNING\<close> state stays
  \<open>RUNNING\<close>. A call of \<open>execute_contract\<close> that passes validation and allocation and
  returns leaves one of \<open>RUNNING\<close>, \<open>COMPLETED\<close>, \<open>ERROR\<close>, \<open>OUT_OF_GAS\<close>; it leaves
  \<open>RUNNING\<close> only with status \<open>SGX_SUCCESS\<close>, the program counter at or past the end
  of the code, and no execution hash computed.
\<close>
theorem terminal_state_after_loop:
  "(\<not> unat (pc c) < length (contract_code c) \<longrightarrow> exec_loop p n ret c = Done (ret, c))
   \<and> (initialized v \<and> validate_contract_code (contract_code context) = SGX_SUCCESS
        \<and> malloc p MAX_RESULT_SIZE \<noteq> None
        \<and> execute_contract p n v context = Done (r, v', c') \<longrightarrow>
        (state c' = CONTRACT_STATE_RUNNING \<or> state c' = CONTRACT_STATE_COMPLETED
           \<or> state c' = CONTRACT_STATE_ERROR \<or> state c' = CONTRACT_STATE_OUT_OF_GAS)
        \<and> (state c' = CONTRACT_STATE_RUNNING \<longrightarrow>
               r = SGX_SUCCESS \<and> \<not> unat (pc c') < length (contract_code context)
               \<and> execution_hash c' = execution_hash context))"
proof (rule conjI)
  show "\<not> unat (pc c) < length (contract_code c) \<longrightarrow> exec_loop p n ret c = Done (ret, c)"
    by (simp add: exec_loop_past_end)
next
  show "initialized v \<and> validate_contract_code (contract_code context) = SGX_SUCCESS
        \<and> malloc p MAX_RESULT_SIZE \<noteq> None
        \<and> execute_contract p n v context = Done (r, v', c') \<longrightarrow>
        (state c' = CONTRACT_STATE_RUNNING \<or> state c' = CONTRACT_STATE_COMPLETED
           \<or> state c' = CONTRACT_STATE_ERROR \<or> state c' = CONTRACT_STATE_OUT_OF_GAS)
        \<and> (state c' = CONTRACT_STATE_RUNNING \<longrightarrow>
               r = SGX_SUCCESS \<and> \<not> unat (pc c') < length (contract_code context)
               \<and> execution_hash c' = execution_hash context)"
  proof (rule impI)
  assume h: "initialized v \<and> validate_contract_code (contract_code context) = SGX_SUCCESS
      \<and> malloc p MAX_RESULT_SIZE \<noteq> None
      \<and> execute_contract p n v context = Done (r, v', c')"
  then obtain buf where buf: "malloc p MAX_RESULT_SIZE = Some buf" by auto
  from h buf obtain r1 c1 where
    run: "exec_loop p n SGX_SUCCESS (start_context context buf) = Done (r1, c1)"
    and compl: "state c1 = CONTRACT_STATE_COMPLETED \<longrightarrow>
           r = SGX_SUCCESS \<and> c' = c1\<lparr>execution_hash := sha256 (hashed_message c1)\<rparr>"
    and other: "state c1 \<noteq> CONTRACT_STATE_COMPLETED \<longrightarrow> r = r1 \<and> c' = c1"
    using execute_contract_Done [of p n v "context" r v' c' buf] by blast
  note fin = exec_loop_Done [OF run start_context_pre(1)]
  note io = exec_loop_same_io [OF run]
  have "state c' = CONTRACT_STATE_RUNNING \<or> state c' = CONTRACT_STATE_COMPLETED
      \<or> state c' = CONTRACT_STATE_ERROR \<or> state c' = CONTRACT_STATE_OUT_OF_GAS"
    using fin compl other by (cases "state c1 = CONTRACT_STATE_COMPLETED") auto
  moreover have "state c' = CONTRACT_STATE_RUNNING \<longrightarrow>
      r = SGX_SUCCESS \<and> \<not> unat (pc c') < length (contract_code context)
      \<and> execution_hash c' = execution_hash context"
    using fin compl other io(1,3) by (cases "state c1 = CONTRACT_STATE_COMPLETED") auto
  ultimately show "(state c' = CONTRACT_STATE_RUNNING \<or> state c' = CONTRACT_STATE_COMPLETED
           \<or> state c' = CONTRACT_STATE_ERROR \<or> state c' = CONTRACT_STATE_OUT_OF_GAS)
        \<and> (state c' = CONTRACT_STATE_RUNNING \<longrightarrow>
               r = SGX_SUCCESS \<and> \<not> unat (pc c') < length (contract_code context)
               \<and> execution_hash c' = execution_hash context)"
    by (rule conjI)
  qed
qed

text \<open>The equations that evaluate a call on a concrete program.\<close>

lemmas exec_defs =
  execute_contract_def validate_contract_code_def validate_scan.simps case_labels_def
  MAX_CONTRACT_SIZE_def MAX_RESULT_SIZE_def demo_platform_def demo_verifier_def
  demo_globals_def compute_execution_hash_def exec_loop_unfold run_defs

text \<open>
  Counterexample to C8 as stated: the validator accepts a PUSH whose operand ends with
  the byte 0xFF at the end of the code; the PUSH moves the program counter to the end,
  and \<open>execute_contract\<close> returns \<open>SGX_SUCCESS\<close> with the state still \<open>RUNNING\<close>.
\<close>

theorem terminal_state_running_counterexample:
  "validate_contract_code push_overrun = SGX_SUCCESS
   \<and> (case execute_contract demo_platform 1 demo_verifier (boundary_context push_overrun []) of
         Done (r, v, c) \<Rightarrow>
           r = SGX_SUCCESS \<and> state c = CONTRACT_STATE_RUNNING
           \<and> unat (pc c) = length push_overrun \<and> execution_counter v = 1
       | _ \<Rightarrow> False)"
  by (simp add: exec_defs push_overrun_def)

text \<open>Witness for C8: the same call meets the hypotheses of both parts.\<close>

theorem terminal_state_after_loop_witness:
  "initialized demo_verifier
   \<and> validate_contract_code (contract_code (boundary_context push_overrun [])) = SGX_SUCCESS
   \<and> malloc demo_platform MAX_RESULT_SIZE \<noteq> None
   \<and> execute_contract demo_platform 1 demo_verifier (boundary_context push_overrun [])
       = Done (SGX_SUCCESS, demo_verifier\<lparr>execution_counter := 1\<rparr>,
               (start_context (boundary_context push_overrun []) (replicate MAX_RESULT_SIZE 0))
                 \<lparr>stack := \<lparr>stack_data = (replicate 256 0)[0 := 0xFF00000000000000],
                            stack_top = 1\<rparr>,
                  pc := 9, gas_used := 3\<rparr>)
   \<and> state ((start_context (boundary_context push_overrun []) (replicate MAX_RESULT_SIZE 0))
                 \<lparr>stack := \<lparr>stack_data = (replicate 256 0)[0 := 0xFF00000000000000],
                            stack_top = 1\<rparr>,
                  pc := 9, gas_used := 3\<rparr>) = CONTRACT_STATE_RUNNING"
  using terminal_state_after_loop [of
      "(start_context (boundary_context push_overrun []) (replicate MAX_RESULT_SIZE 0))
                 \<lparr>stack := \<lparr>stack_data = (replicate 256 0)[0 := 0xFF00000000000000],
                            stack_top = 1\<rparr>,
                  pc := 9, gas_used := 3\<rparr>"
      demo_platform 1 SGX_SUCCESS demo_verifier "boundary_context push_overrun []" SGX_SUCCESS
      "demo_verifier\<lparr>execution_counter := 1\<rparr>"
      "(start_context (boundary_context push_overrun []) (replicate MAX_RESULT_SIZE 0))
                 \<lparr>stack := \<lparr>stack_data = (replicate 256 0)[0 := 0xFF00000000000000],
                            stack_top = 1\<rparr>,
                  pc := 9, gas_used := 3\<rparr>"]
  by (simp add: exec_defs push_overrun_def)

section \<open>The boundary call\<close>

lemma execute_contract_success:
  assumes "execute_contract p n v context = Done (SGX_SUCCESS, v', c')"
  shows "initialized v" "validate_contract_code (contract_code context) = SGX_SUCCESS"
    "malloc p MAX_RESULT_SIZE \<noteq> None"
  using assms
  by (auto simp: execute_contract_def Let_def split: if_splits option.splits)

lemma execute_contract_gas:
  assumes "execute_contract p n v context = Done (SGX_SUCCESS, v', c')"
  shows "gas_used c' \<le> gas_limit context" "result_size c' = 0"
proof -
  note s = execute_contract_success [OF assms]
  then obtain buf where buf: "malloc p MAX_RESULT_SIZE = Some buf" by auto
  from execute_contract_Done [OF assms s(1,2) buf] obtain r1 c1 where
    run: "exec_loop p n SGX_SUCCESS (start_context context buf) = Done (r1, c1)"
    and compl: "state c1 = CONTRACT_STATE_COMPLETED \<longrightarrow>
           c' = c1\<lparr>execution_hash := sha256 (hashed_message c1)\<rparr>"
    and other: "state c1 \<noteq> CONTRACT_STATE_COMPLETED \<longrightarrow> c' = c1"
    by blast
  note io = exec_loop_same_io [OF run]
  from compl other io(6,7) show "gas_used c' \<le> gas_limit context"
    by (cases "state c1 = CONTRACT_STATE_COMPLETED") auto
  from compl other io(4) show "result_size c' = 0"
    by (cases "state c1 = CONTRACT_STATE_COMPLETED") auto
qed

lemma execute_contract_failed_state:
  assumes "execute_contract p n v (boundary_context code input) = Done (r, v', c')"
    and "state c' = CONTRACT_STATE_ERROR \<or> state c' = CONTRACT_STATE_OUT_OF_GAS"
  shows "r \<noteq> SGX_SUCCESS"
proof
  assume "r = SGX_SUCCESS"
  with assms(1) have ok: "execute_contract p n v (boundary_context code input)
      = Done (SGX_SUCCESS, v', c')" by simp
  note s = execute_contract_success [OF ok]
  then obtain buf where buf: "malloc p MAX_RESULT_SIZE = Some buf" by auto
  from execute_contract_Done [OF ok s(1,2) buf] obtain r1 c1 where
    run: "exec_loop p n SGX_SUCCESS (start_context (boundary_context code input) buf)
            = Done (r1, c1)"
    and compl: "state c1 = CONTRACT_STATE_COMPLETED \<longrightarrow>
           c' = c1\<lparr>execution_hash := sha256 (hashed_message c1)\<rparr>"
    and other: "state c1 \<noteq> CONTRACT_STATE_COMPLETED \<longrightarrow> SGX_SUCCESS = r1 \<and> c' = c1"
    by blast
  from exec_loop_Done [OF run start_context_pre(1)] compl other assms(2)
  show False by (cases "state c1 = CONTRACT_STATE_COMPLETED") auto
qed

lemma ecall_verify_Done:
  assumes "ecall_verify_contract_execution p n g args = Done (r, g', args')"
  shows "(r \<noteq> SGX_SUCCESS \<and> arg_gas_used args' = arg_gas_used args
            \<and> arg_execution_result args' = arg_execution_result args)
         \<or> (\<exists>code input v c. r = SGX_SUCCESS \<and> arg_contract_code args = Some code
               \<and> arg_input_data args = Some input
               \<and> execute_contract p n (g_verifier g) (boundary_context code input)
                   = Done (SGX_SUCCESS, v, c)
               \<and> arg_gas_used args' = Some (gas_used c)
               \<and> arg_result_size args' = Some (result_size c))"
  using assms
  by (auto simp: ecall_verify_contract_execution_def Let_def
           split: if_splits option.splits outcome.splits prod.splits)

text \<open>
  With the verifier initialised and no null pointer, the call is the run of
  \<open>execute_contract\<close> on the context built from code and input: it returns the status
  of that run, and on success it writes the gas of that run and the result size 0 over
  whatever the host left in the out-parameters.
\<close>

lemma ecall_verify_runs_boundary_context:
  assumes init: "g_verifier_initialized g"
    and args: "arg_contract_code args = Some code" "arg_input_data args = Some input"
      "arg_execution_result args = Some buffer" "arg_result_size args = Some capacity"
      "arg_gas_used args = Some host_gas"
  shows "ecall_verify_contract_execution p n g args =
           (case execute_contract p n (g_verifier g) (boundary_context code input) of
              NoFuel \<Rightarrow> NoFuel
            | Fault \<Rightarrow> Fault
            | Done (ret, v, c) \<Rightarrow>
                Done (ret, g\<lparr>g_verifier := v\<rparr>,
                      if ret = SGX_SUCCESS
                      then args\<lparr>arg_result_size := Some 0, arg_gas_used := Some (gas_used c)\<rparr>
                      else args))"
proof (cases "execute_contract p n (g_verifier g) (boundary_context code input)")
  case (Done x)
  obtain ret v c where x: "x = (ret, v, c)" by (cases x)
  have same: "args\<lparr>arg_execution_result := Some buffer\<rparr> = args"
    using args(3) by (cases args) simp
  show ?thesis
  proof (cases "ret = SGX_SUCCESS")
    case True
    with Done x have "result_size c = 0"
      using execute_contract_gas(2) [of p n "g_verifier g" "boundary_context code input" v c]
      by simp
    with True Done x init args same show ?thesis
      by (simp add: ecall_verify_contract_execution_def)
  next
    case False
    with Done x init args show ?thesis
      by (simp add: ecall_verify_contract_execution_def)
  qed
next
  case Fault
  with init args show ?thesis by (simp add: ecall_verify_contract_execution_def)
next
  case NoFuel
  with init args show ?thesis by (simp add: ecall_verify_contract_execution_def)
qed

text \<open>
  Claim C10. \<open>ecall_verify_contract_execution\<close> has no gas-limit argument: the context
  it hands to \<open>execute_contract\<close> is built from the code and the input alone and has
  the gas limit 1,000,000, the value of \<open>DEFAULT_GAS_LIMIT\<close>. Every state the loop
  passes through from there has that limit and has used at most that much gas, and the
  gas a successful call reports to the host is at most 1,000,000, whatever the
  arguments. Whatever the host leaves in the result buffer, in \<open>result_size\<close> and in
  \<open>gas_used\<close>, a call with an initialised verifier and no null pointer is the run of
  \<open>execute_contract\<close> on that context: it runs out of fuel or faults exactly when that
  run does, returns the status of that run, and on success reports the gas of that run.
\<close>

theorem boundary_gas_limit_fixed:
  "gas_limit (boundary_context code input) = DEFAULT_GAS_LIMIT \<and> DEFAULT_GAS_LIMIT = 1000000
   \<and> (\<forall>c \<in> set (trace p n (start_context (boundary_context code input) buf)).
         gas_limit c = 1000000 \<and> gas_used c \<le> 1000000)
   \<and> (ecall_verify_contract_execution p n g args = Done (SGX_SUCCESS, g', args') \<longrightarrow>
         (\<exists>gas. arg_gas_used args' = Some gas \<and> gas \<le> 1000000))
   \<and> (g_verifier_initialized g
        \<and> arg_contract_code args = Some code \<and> arg_input_data args = Some input
        \<and> arg_execution_result args = Some buffer \<and> arg_result_size args = Some capacity
        \<and> arg_gas_used args = Some host_gas \<longrightarrow>
        ecall_verify_contract_execution p n g args =
          (case execute_contract p n (g_verifier g) (boundary_context code input) of
             NoFuel \<Rightarrow> NoFuel
           | Fault \<Rightarrow> Fault
           | Done (ret, v, c) \<Rightarrow>
               Done (ret, g\<lparr>g_verifier := v\<rparr>,
                     if ret = SGX_SUCCESS
                     then args\<lparr>arg_result_size := Some 0, arg_gas_used := Some (gas_used c)\<rparr>
                     else args)))"
proof (intro conjI ballI impI)
  show "gas_limit (boundary_context code input) = DEFAULT_GAS_LIMIT"
    by (simp add: boundary_context_def DEFAULT_GAS_LIMIT_def)
  show "DEFAULT_GAS_LIMIT = 1000000"
    by (simp add: DEFAULT_GAS_LIMIT_def)
  have l: "gas_limit (boundary_context code input) = 1000000"
    by (simp add: boundary_context_def)
  {
    fix c assume mem: "c \<in> set (trace p n (start_context (boundary_context code input) buf))"
    note inv = trace_invariant [OF mem start_context_pre(2)]
    from inv l show "gas_limit c = 1000000"
      by (simp add: same_io_def start_context_pre(3))
    with inv show "gas_used c \<le> 1000000" by simp
  }
  {
    assume "ecall_verify_contract_execution p n g args = Done (SGX_SUCCESS, g', args')"
    from ecall_verify_Done [OF this] obtain code' input' v c where
      ex: "execute_contract p n (g_verifier g) (boundary_context code' input')
             = Done (SGX_SUCCESS, v, c)"
      and g: "arg_gas_used args' = Some (gas_used c)"
      by auto
    from execute_contract_gas(1) [OF ex] have "gas_used c \<le> 1000000"
      by (simp add: boundary_context_def)
    with g show "\<exists>gas. arg_gas_used args' = Some gas \<and> gas \<le> 1000000" by simp
  }
  assume "g_verifier_initialized g
        \<and> arg_contract_code args = Some code \<and> arg_input_data args = Some input
        \<and> arg_execution_result args = Some buffer \<and> arg_result_size args = Some capacity
        \<and> arg_gas_used args = Some host_gas"
  then show "ecall_verify_contract_execution p n g args =
          (case execute_contract p n (g_verifier g) (boundary_context code input) of
             NoFuel \<Rightarrow> NoFuel
           | Fault \<Rightarrow> Fault
           | Done (ret, v, c) \<Rightarrow>
               Done (ret, g\<lparr>g_verifier := v\<rparr>,
                     if ret = SGX_SUCCESS
                     then args\<lparr>arg_result_size := Some 0, arg_gas_used := Some (gas_used c)\<rparr>
                     else args))"
    using ecall_verify_runs_boundary_context [of g args code input buffer capacity host_gas p n]
    by simp
qed

text \<open>
  Witness for C10: the boundary call on PUSH 10, PUSH 20, ADD, HALT, by a host that
  leaves 2 in \<open>gas_used\<close>, runs under the limit 1,000,000 and reports 9, the gas of
  \<open>execute_contract\<close> on the context built from that code and the empty input.
\<close>

theorem boundary_gas_limit_fixed_witness:
  "start_context (boundary_context add_and_halt []) []
     \<in> set (trace demo_platform 4 (start_context (boundary_context add_and_halt []) []))
   \<and> gas_limit (start_context (boundary_context add_and_halt []) []) = 1000000
   \<and> g_verifier_initialized demo_globals
   \<and> arg_contract_code low_gas_call_args = Some add_and_halt
   \<and> arg_input_data low_gas_call_args = Some []
   \<and> arg_execution_result low_gas_call_args = Some []
   \<and> arg_result_size low_gas_call_args = Some 0
   \<and> arg_gas_used low_gas_call_args = Some 2
   \<and> (\<exists>c. execute_contract demo_platform 4 (g_verifier demo_globals)
              (boundary_context add_and_halt [])
            = Done (SGX_SUCCESS, demo_verifier\<lparr>execution_counter := 1\<rparr>, c)
          \<and> gas_used c = 9)
   \<and> ecall_verify_contract_execution demo_platform 4 demo_globals low_gas_call_args
       = Done (SGX_SUCCESS,
               demo_globals\<lparr>g_verifier := demo_verifier\<lparr>execution_counter := 1\<rparr>\<rparr>,
               low_gas_call_args\<lparr>arg_result_size := Some 0, arg_gas_used := Some 9\<rparr>)"
  using boundary_gas_limit_fixed [of add_and_halt "[]" demo_platform 4 "[]" demo_globals
      low_gas_call_args "demo_globals\<lparr>g_verifier := demo_verifier\<lparr>execution_counter := 1\<rparr>\<rparr>"
      "low_gas_call_args\<lparr>arg_result_size := Some 0, arg_gas_used := Some 9\<rparr>"
      "[]" 0 2]
  by (simp add: trace_head DEFAULT_GAS_LIMIT_def)
     (simp add: ecall_verify_contract_execution_def low_gas_call_args_def exec_defs
        add_and_halt_def DEFAULT_GAS_LIMIT_def)

text \<open>
  Claim C9, as the code has it. When \<open>execute_contract\<close> ends in \<open>ERROR\<close> or
  \<open>OUT_OF_GAS\<close> its status is not \<open>SGX_SUCCESS\<close>, and the boundary call returns that
  status and nothing else: every out-parameter keeps the host's value. On any status
  other than \<open>SGX_SUCCESS\<close> the call leaves \<open>gas_used\<close> and the result buffer
  unwritten; it writes \<open>gas_used\<close> (and the result size, which is 0) only when it
  returns \<open>SGX_SUCCESS\<close>. No out-parameter carries the terminal state.
\<close>
theorem failed_execution_returns_status_only:
  "(g_verifier_initialized g \<and> arg_contract_code args = Some code
      \<and> arg_input_data args = Some input \<and> arg_execution_result args = Some buffer
      \<and> arg_result_size args = Some capacity \<and> arg_gas_used args = Some gas
      \<and> execute_contract p n (g_verifier g) (boundary_context code input) = Done (ret, v, c)
      \<and> (state c = CONTRACT_STATE_ERROR \<or> state c = CONTRACT_STATE_OUT_OF_GAS) \<longrightarrow>
      ret \<noteq> SGX_SUCCESS
      \<and> ecall_verify_contract_execution p n g args = Done (ret, g\<lparr>g_verifier := v\<rparr>, args))
   \<and> (ecall_verify_contract_execution p n g args = Done (r, g', args') \<and> r \<noteq> SGX_SUCCESS \<longrightarrow>
        arg_gas_used args' = arg_gas_used args
        \<and> arg_execution_result args' = arg_execution_result args)
   \<and> (ecall_verify_contract_execution p n g args = Done (SGX_SUCCESS, g', args') \<longrightarrow>
        (\<exists>code input v c.
           execute_contract p n (g_verifier g) (boundary_context code input)
             = Done (SGX_SUCCESS, v, c)
           \<and> arg_gas_used args' = Some (gas_used c) \<and> arg_result_size args' = Some 0))"
proof (intro conjI)
  show "g_verifier_initialized g \<and> arg_contract_code args = Some code
      \<and> arg_input_data args = Some input \<and> arg_execution_result args = Some buffer
      \<and> arg_result_size args = Some capacity \<and> arg_gas_used args = Some gas
      \<and> execute_contract p n (g_verifier g) (boundary_context code input) = Done (ret, v, c)
      \<and> (state c = CONTRACT_STATE_ERROR \<or> state c = CONTRACT_STATE_OUT_OF_GAS) \<longrightarrow>
      ret \<noteq> SGX_SUCCESS
      \<and> ecall_verify_contract_execution p n g args = Done (ret, g\<lparr>g_verifier := v\<rparr>, args)"
  proof (rule impI)
    assume h: "g_verifier_initialized g \<and> arg_contract_code args = Some code
      \<and> arg_input_data args = Some input \<and> arg_execution_result args = Some buffer
      \<and> arg_result_size args = Some capacity \<and> arg_gas_used args = Some gas
      \<and> execute_contract p n (g_verifier g) (boundary_context code input) = Done (ret, v, c)
      \<and> (state c = CONTRACT_STATE_ERROR \<or> state c = CONTRACT_STATE_OUT_OF_GAS)"
    then have ne: "ret \<noteq> SGX_SUCCESS"
      using execute_contract_failed_state [of p n "g_verifier g" code input ret v c] by simp
    with h show "ret \<noteq> SGX_SUCCESS
      \<and> ecall_verify_contract_execution p n g args = Done (ret, g\<lparr>g_verifier := v\<rparr>, args)"
      by (simp add: ecall_verify_contract_execution_def)
  qed
  show "ecall_verify_contract_execution p n g args = Done (r, g', args') \<and> r \<noteq> SGX_SUCCESS \<longrightarrow>
        arg_gas_used args' = arg_gas_used args
        \<and> arg_execution_result args' = arg_execution_result args"
    using ecall_verify_Done [of p n g args r g' args'] by auto
  show "ecall_verify_contract_execution p n g args = Done (SGX_SUCCESS, g', args') \<longrightarrow>
        (\<exists>code input v c.
           execute_contract p n (g_verifier g) (boundary_context code input)
             = Done (SGX_SUCCESS, v, c)
           \<and> arg_gas_used args' = Some (gas_used c) \<and> arg_result_size args' = Some 0)"
  proof (rule impI)
    assume "ecall_verify_contract_execution p n g args = Done (SGX_SUCCESS, g', args')"
    from ecall_verify_Done [OF this] obtain code' input' v' c' where
      ex: "execute_contract p n (g_verifier g) (boundary_context code' input')
             = Done (SGX_SUCCESS, v', c')"
      and g: "arg_gas_used args' = Some (gas_used c')"
        "arg_result_size args' = Some (result_size c')"
      by auto
    from execute_contract_gas(2) [OF ex] ex g show "\<exists>code input v c.
           execute_contract p n (g_verifier g) (boundary_context code input)
             = Done (SGX_SUCCESS, v, c)
           \<and> arg_gas_used args' = Some (gas_used c) \<and> arg_result_size args' = Some 0"
      by auto
  qed
qed

text \<open>
  Counterexample to C9 as stated: on PUSH 5, PUSH 0, DIV, HALT the execution ends in
  \<open>ERROR\<close> with 6 gas used, and the boundary call returns
  \<open>SGX_ERROR_CONTRACT_EXECUTION_FAILED\<close> with the host's \<open>gas_used\<close> still 777.
\<close>

theorem failed_execution_gas_not_written_counterexample:
  "ecall_verify_contract_execution demo_platform 3 demo_globals failing_call_args
     = Done (SGX_ERROR_CONTRACT_EXECUTION_FAILED,
             demo_globals\<lparr>g_verifier := demo_verifier\<lparr>execution_counter := 1\<rparr>\<rparr>,
             failing_call_args)
   \<and> arg_gas_used failing_call_args = Some 777
   \<and> (case execute_contract demo_platform 3 demo_verifier (boundary_context div_by_zero []) of
         Done (r, v, c) \<Rightarrow> state c = CONTRACT_STATE_ERROR \<and> gas_used c = 6
       | _ \<Rightarrow> False)"
  by (simp add: ecall_verify_contract_execution_def failing_call_args_def exec_defs
        div_by_zero_def)

text \<open>
  Witness for C9: the same call meets the hypotheses of the first two parts, and the
  call on PUSH 10, PUSH 20, ADD, HALT that of the third.
\<close>

theorem failed_execution_returns_status_only_witness:
  "g_verifier_initialized demo_globals
   \<and> execute_contract demo_platform 3 (g_verifier demo_globals) (boundary_context div_by_zero [])
       = Done (SGX_ERROR_CONTRACT_EXECUTION_FAILED, demo_verifier\<lparr>execution_counter := 1\<rparr>,
               (start_context (boundary_context div_by_zero []) (replicate MAX_RESULT_SIZE 0))
                 \<lparr>stack := \<lparr>stack_data = (replicate 256 0)[0 := 5, 1 := 0], stack_top = 1\<rparr>,
                  pc := 18, gas_used := 6, state := CONTRACT_STATE_ERROR\<rparr>)
   \<and> ecall_verify_contract_execution demo_platform 3 demo_globals failing_call_args
       = Done (SGX_ERROR_CONTRACT_EXECUTION_FAILED,
               demo_globals\<lparr>g_verifier := demo_verifier\<lparr>execution_counter := 1\<rparr>\<rparr>,
               failing_call_args)
   \<and> ecall_verify_contract_execution demo_platform 4 demo_globals passing_call_args
       = Done (SGX_SUCCESS,
               demo_globals\<lparr>g_verifier := demo_verifier\<lparr>execution_counter := 1\<rparr>\<rparr>,
               passing_call_args\<lparr>arg_result_size := Some 0, arg_gas_used := Some 9\<rparr>)"
  using failed_execution_returns_status_only [of demo_globals failing_call_args div_by_zero "[]"
      "replicate 16 0xAA" 16 777 demo_platform 3 SGX_ERROR_CONTRACT_EXECUTION_FAILED
      "demo_verifier\<lparr>execution_counter := 1\<rparr>"
      "(start_context (boundary_context div_by_zero []) (replicate MAX_RESULT_SIZE 0))
                 \<lparr>stack := \<lparr>stack_data = (replicate 256 0)[0 := 5, 1 := 0], stack_top = 1\<rparr>,
                  pc := 18, gas_used := 6, state := CONTRACT_STATE_ERROR\<rparr>"
      SGX_ERROR_CONTRACT_EXECUTION_FAILED
      "demo_globals\<lparr>g_verifier := demo_verifier\<lparr>execution_counter := 1\<rparr>\<rparr>"
      failing_call_args]
    failed_execution_returns_status_only [of demo_globals passing_call_args add_and_halt "[]"
      "replicate 16 0xAA" 16 777 demo_platform 4 SGX_SUCCESS
      "demo_verifier\<lparr>execution_counter := 1\<rparr>"
      "start_context (boundary_context add_and_halt []) (replicate MAX_RESULT_SIZE 0)"
      SGX_SUCCESS
      "demo_globals\<lparr>g_verifier := demo_verifier\<lparr>execution_counter := 1\<rparr>\<rparr>"
      "passing_call_args\<lparr>arg_result_size := Some 0, arg_gas_used := Some 9\<rparr>"]
  by (simp add: ecall_verify_contract_execution_def failing_call_args_def passing_call_args_def
        exec_defs div_by_zero_def add_and_halt_def)

section \<open>The cost charged for an instruction\<close>

lemma unlisted_gas_cost:
  assumes "opcode \<noteq> OP_NOP" "opcode \<noteq> OP_PUSH" "opcode \<noteq> OP_POP" "opcode \<noteq> OP_ADD"
    "opcode \<noteq> OP_SUB" "opcode \<noteq> OP_MUL"
  shows "get_opcode_gas_cost opcode = 0"
proof -
  have "unat opcode < 2 ^ LENGTH(8)"
    by (rule unsigned_less)
  then have lt: "unat opcode < 256" by simp
  have from_unat: "opcode = of_nat k" if "unat opcode = k" for k
  proof -
    have "opcode = of_nat (unat opcode)" by simp
    with that show ?thesis by simp
  qed
  have ne: "unat opcode \<noteq> 0" "unat opcode \<noteq> 1" "unat opcode \<noteq> 2" "unat opcode \<noteq> 3"
    "unat opcode \<noteq> 4" "unat opcode \<noteq> 5"
    using assms from_unat [of 0] from_unat [of 1] from_unat [of 2] from_unat [of 3]
      from_unat [of 4] from_unat [of 5]
    by auto
  from lt ne show ?thesis
    by (simp add: get_opcode_gas_cost_def GAS_COSTS_def nth_list_update)
qed

text \<open>
  Claim C4, as the code has it. An iteration whose instruction succeeds adds
  \<open>get_opcode_gas_cost\<close> of its opcode to \<open>gas_used\<close>, whether the loop goes on or ends
  in \<open>COMPLETED\<close>; an iteration whose instruction fails ends in \<open>ERROR\<close> with
  \<open>gas_used\<close> as it was, since \<open>consume_gas\<close> runs after \<open>execute_instruction\<close>. The
  costs are 1 for NOP, 3 for PUSH, 2 for POP, 3 for ADD, 3 for SUB, 5 for MUL, 0 for HALT
  and 0 for every other opcode, DIV and MOD among them. PUSH 5, PUSH 0, DIV, HALT ends in
  \<open>ERROR\<close> with \<open>gas_used = 6\<close> and an empty result.
\<close>
theorem charged_cost_of_gas_table:
  "(loop_body p c = Continue c1 \<longrightarrow>
      gas_used c1 = gas_used c + get_opcode_gas_cost (contract_code c ! unat (pc c)))
   \<and> (loop_body p d = Break r d1 \<and> state d1 = CONTRACT_STATE_COMPLETED \<longrightarrow>
        gas_used d1 = gas_used d + get_opcode_gas_cost (contract_code d ! unat (pc d)))
   \<and> (loop_body p e = Break r' e1 \<and> state e1 = CONTRACT_STATE_ERROR \<longrightarrow>
        gas_used e1 = gas_used e)
   \<and> get_opcode_gas_cost OP_NOP = 1 \<and> get_opcode_gas_cost OP_PUSH = 3
   \<and> get_opcode_gas_cost OP_POP = 2 \<and> get_opcode_gas_cost OP_ADD = 3
   \<and> get_opcode_gas_cost OP_SUB = 3 \<and> get_opcode_gas_cost OP_MUL = 5
   \<and> get_opcode_gas_cost OP_HALT = 0
   \<and> (opcode \<noteq> OP_NOP \<and> opcode \<noteq> OP_PUSH \<and> opcode \<noteq> OP_POP \<and> opcode \<noteq> OP_ADD
        \<and> opcode \<noteq> OP_SUB \<and> opcode \<noteq> OP_MUL \<longrightarrow> get_opcode_gas_cost opcode = 0)
   \<and> (case execute_contract demo_platform 3 demo_verifier (boundary_context div_by_zero []) of
         Done (s, v, t) \<Rightarrow>
           s = SGX_ERROR_CONTRACT_EXECUTION_FAILED \<and> state t = CONTRACT_STATE_ERROR
           \<and> gas_used t = 6 \<and> result_size t = 0
       | _ \<Rightarrow> False)"
proof -
  have a: "loop_body p c = Continue c1 \<longrightarrow>
      gas_used c1 = gas_used c + get_opcode_gas_cost (contract_code c ! unat (pc c))"
    using loop_body_Continue(3) [of p c c1] by (simp add: next_cost_def)
  have b: "loop_body p d = Break r d1 \<and> state d1 = CONTRACT_STATE_COMPLETED \<longrightarrow>
        gas_used d1 = gas_used d + get_opcode_gas_cost (contract_code d ! unat (pc d))"
    using loop_body_Break [of p d r d1] by (auto simp: next_cost_def)
  have c: "loop_body p e = Break r' e1 \<and> state e1 = CONTRACT_STATE_ERROR \<longrightarrow>
        gas_used e1 = gas_used e"
    using loop_body_Break [of p e r' e1] by (auto simp: same_frame_def)
  have d: "opcode \<noteq> OP_NOP \<and> opcode \<noteq> OP_PUSH \<and> opcode \<noteq> OP_POP \<and> opcode \<noteq> OP_ADD
        \<and> opcode \<noteq> OP_SUB \<and> opcode \<noteq> OP_MUL \<longrightarrow> get_opcode_gas_cost opcode = 0"
    using unlisted_gas_cost [of opcode] by blast
  have e: "case execute_contract demo_platform 3 demo_verifier (boundary_context div_by_zero []) of
         Done (s, v, t) \<Rightarrow>
           s = SGX_ERROR_CONTRACT_EXECUTION_FAILED \<and> state t = CONTRACT_STATE_ERROR
           \<and> gas_used t = 6 \<and> result_size t = 0
       | _ \<Rightarrow> False"
    by (simp add: exec_defs div_by_zero_def)
  from a b c d e show ?thesis
    by (simp add: gas_cost_values [simplified])
qed

text \<open>
  Witness for C4: the first PUSH of PUSH 10, PUSH 20, ADD, HALT goes on with 3 gas used;
  HALT alone ends in \<open>COMPLETED\<close>; DIV by zero after 6 gas ends in \<open>ERROR\<close>; DIV is
  none of the six opcodes with a non-zero cost.
\<close>

theorem charged_cost_of_gas_table_witness:
  "loop_body demo_platform (start_context (boundary_context add_and_halt []) [])
     = Continue ((start_context (boundary_context add_and_halt []) [])
                   \<lparr>stack := \<lparr>stack_data = (replicate 256 0)[0 := 10], stack_top = 1\<rparr>,
                    pc := 9, gas_used := 3\<rparr>)
   \<and> loop_body demo_platform (start_context (boundary_context halt_only []) [])
     = Break SGX_SUCCESS ((start_context (boundary_context halt_only []) [])
                            \<lparr>pc := 1, state := CONTRACT_STATE_COMPLETED\<rparr>)
   \<and> loop_body demo_platform before_div
     = Break SGX_ERROR_CONTRACT_EXECUTION_FAILED
         (before_div\<lparr>stack := \<lparr>stack_data = (replicate 256 0)[0 := 5, 1 := 0], stack_top = 1\<rparr>,
                     state := CONTRACT_STATE_ERROR\<rparr>)
   \<and> gas_used before_div = 6
   \<and> OP_DIV \<noteq> OP_NOP \<and> OP_DIV \<noteq> OP_PUSH \<and> OP_DIV \<noteq> OP_POP \<and> OP_DIV \<noteq> OP_ADD
   \<and> OP_DIV \<noteq> OP_SUB \<and> OP_DIV \<noteq> OP_MUL \<and> get_opcode_gas_cost OP_DIV = 0"
  using charged_cost_of_gas_table [of demo_platform
      "start_context (boundary_context add_and_halt []) []"
      "(start_context (boundary_context add_and_halt []) [])
                   \<lparr>stack := \<lparr>stack_data = (replicate 256 0)[0 := 10], stack_top = 1\<rparr>,
                    pc := 9, gas_used := 3\<rparr>"
      "start_context (boundary_context halt_only []) []" SGX_SUCCESS
      "(start_context (boundary_context halt_only []) [])
                            \<lparr>pc := 1, state := CONTRACT_STATE_COMPLETED\<rparr>"
      before_div SGX_ERROR_CONTRACT_EXECUTION_FAILED
      "before_div\<lparr>stack := \<lparr>stack_data = (replicate 256 0)[0 := 5, 1 := 0], stack_top = 1\<rparr>,
                     state := CONTRACT_STATE_ERROR\<rparr>"
      OP_DIV]
  by (simp add: run_defs before_div_def add_and_halt_def halt_only_def div_by_zero_def)

text \<open>
  Counterexample to C4 as stated: DIV and MOD cost 0, not 5, and the validated program
  PUSH 5, PUSH 0, DIV, HALT ends in \<open>ERROR\<close> with \<open>gas_used = 6\<close>, not 11.
\<close>

theorem div_by_zero_gas_counterexample:
  "get_opcode_gas_cost OP_DIV = 0 \<and> get_opcode_gas_cost OP_MOD = 0
   \<and> validate_contract_code div_by_zero = SGX_SUCCESS
   \<and> (case execute_contract demo_platform 3 demo_verifier (boundary_context div_by_zero []) of
         Done (s, v, t) \<Rightarrow> state t = CONTRACT_STATE_ERROR \<and> gas_used t = 6
       | _ \<Rightarrow> False)"
  by (simp add: exec_defs div_by_zero_def)

section \<open>The output of a run\<close>

text \<open>
  Claim C1, evaluated on the code. PUSH 10, PUSH 20, ADD, HALT passes the validator and
  completes with \<open>gas_used = 9\<close> and 30 on top of a stack of depth 1, but the result
  size is 0: no instruction writes \<open>result_data\<close> or \<open>result_size\<close>. The boundary call
  reports a result of size 0 and leaves the host's buffer as it was.
\<close>
theorem add_and_halt_output_empty:
  "validate_contract_code add_and_halt = SGX_SUCCESS
   \<and> (case execute_contract demo_platform 4 demo_verifier (boundary_context add_and_halt []) of
         Done (s, v, t) \<Rightarrow>
           s = SGX_SUCCESS \<and> state t = CONTRACT_STATE_COMPLETED \<and> gas_used t = 9
           \<and> stack_top (stack t) = 1 \<and> stack_data (stack t) ! 0 = 30
           \<and> result_size t = 0
       | _ \<Rightarrow> False)
   \<and> (case ecall_verify_contract_execution demo_platform 4 demo_globals passing_call_args of
         Done (s, g, args) \<Rightarrow>
           s = SGX_SUCCESS \<and> arg_result_size args = Some 0 \<and> arg_gas_used args = Some 9
           \<and> arg_execution_result args = Some (replicate 16 0xAA)
       | _ \<Rightarrow> False)"
  by (simp add: ecall_verify_contract_execution_def passing_call_args_def exec_defs
        add_and_halt_def)

section \<open>Memory accesses\<close>

text \<open>
  LOAD and STORE compare the address with \<open>sizeof(memory) - 8\<close> and involve no sum: an
  address with \<open>addr + 8 > 4096\<close> fails.
\<close>

lemma load_store_confined:
  assumes "stack_pop (stack c) = Inr (a, s1)" and "MEMORY_SIZE < unat a + 8"
  shows "fst (op_load c) = SGX_ERROR_CONTRACT_EXECUTION_FAILED"
    and "stack_pop s1 = Inr (k, s2) \<Longrightarrow> MEMORY_SIZE < unat k + 8 \<Longrightarrow>
           fst (op_store c) = SGX_ERROR_CONTRACT_EXECUTION_FAILED"
proof -
  have bound: "(4088 :: u64) \<le> x" if "MEMORY_SIZE < unat x + 8" for x :: u64
    using that by (simp add: word_le_nat_alt MEMORY_SIZE_def)
  from assms bound [of a] show "fst (op_load c) = SGX_ERROR_CONTRACT_EXECUTION_FAILED"
    by (simp add: op_load_def MEMORY_SIZE_def)
  assume "stack_pop s1 = Inr (k, s2)" "MEMORY_SIZE < unat k + 8"
  with assms(1) bound [of k] show "fst (op_store c) = SGX_ERROR_CONTRACT_EXECUTION_FAILED"
    by (simp add: op_store_def MEMORY_SIZE_def)
qed

text \<open>
  Claim C7, evaluated on the code. PUSH 0xFFFFFFFFFFFFFFFF, PUSH 1, HASH, HALT passes the
  validator. HASH pops the length 1 and the address \<open>2^64 - 1\<close>; their 64-bit sum is 0,
  which is not above 4096, although address plus length is \<open>2^64\<close>. The check passes
  and the hash reads one byte at \<open>&memory[2^64 - 1]\<close>, outside the memory: the call has
  no defined result.
\<close>
theorem hash_reads_outside_memory:
  "validate_contract_code hash_wraparound = SGX_SUCCESS
   \<and> \<not> (0xFFFFFFFFFFFFFFFF + 1 > (of_nat MEMORY_SIZE :: u64))
   \<and> unat (0xFFFFFFFFFFFFFFFF :: u64) + unat (1 :: u64) > MEMORY_SIZE
   \<and> execute_contract demo_platform 3 demo_verifier (boundary_context hash_wraparound []) = Fault
   \<and> ecall_verify_contract_execution demo_platform 3 demo_globals
        (passing_call_args\<lparr>arg_contract_code := Some hash_wraparound\<rparr>) = Fault"
  by (simp add: ecall_verify_contract_execution_def passing_call_args_def exec_defs
        hash_wraparound_def MEMORY_SIZE_def)

section \<open>The execution hash\<close>

text \<open>
  Four digests, computed by the kernel: of the code PUSH 10, PUSH 20, ADD, HALT; of the
  empty string; of the code digest followed by the eight bytes of the gas 9; and of the
  code digest, the digest of the empty string and the eight bytes of the gas 9.
\<close>

lemma sha256_add_and_halt:
  "sha256 [1, 10, 0, 0, 0, 0, 0, 0, 0, 1, 20, 0, 0, 0, 0, 0, 0, 0, 3, 255] =
     [84, 208, 222, 227, 60, 45, 197, 64, 104, 182, 237, 68, 120, 207, 97, 39,
     221, 197, 239, 74, 154, 119, 48, 249, 31, 77, 192, 19, 31, 182, 141, 6]"
  by code_simp

lemma sha256_empty:
  "sha256 [] =
     [227, 176, 196, 66, 152, 252, 28, 20, 154, 251, 244, 200, 153, 111, 185, 36,
     39, 174, 65, 228, 100, 155, 147, 76, 164, 149, 153, 27, 120, 82, 184, 85]"
  by code_simp

lemma sha256_code_gas:
  "sha256 [84, 208, 222, 227, 60, 45, 197, 64, 104, 182, 237, 68, 120, 207, 97, 39,
            221, 197, 239, 74, 154, 119, 48, 249, 31, 77, 192, 19, 31, 182, 141, 6,
            9, 0, 0, 0, 0, 0, 0, 0] =
     [242, 92, 24, 178, 87, 147, 217, 70, 247, 61, 107, 81, 86, 126, 82, 106,
     84, 1, 194, 103, 200, 155, 77, 165, 69, 154, 8, 161, 65, 156, 103, 98]"
  by code_simp

lemma sha256_code_empty_gas:
  "sha256 [84, 208, 222, 227, 60, 45, 197, 64, 104, 182, 237, 68, 120, 207, 97, 39,
            221, 197, 239, 74, 154, 119, 48, 249, 31, 77, 192, 19, 31, 182, 141, 6,
            227, 176, 196, 66, 152, 252, 28, 20, 154, 251, 244, 200, 153, 111, 185, 36,
            39, 174, 65, 228, 100, 155, 147, 76, 164, 149, 153, 27, 120, 82, 184, 85,
            9, 0, 0, 0, 0, 0, 0, 0] =
     [54, 26, 166, 49, 185, 143, 81, 75, 217, 114, 167, 254, 147, 201, 189, 24,
     55, 208, 223, 154, 70, 114, 228, 107, 223, 212, 72, 68, 116, 241, 10, 30]"
  by code_simp

lemma sgx_sha256_msg_whole:
  "src_len < 2 ^ 32 \<Longrightarrow> length p_src \<le> src_len \<Longrightarrow> sgx_sha256_msg p_src src_len = sha256 p_src"
  by (simp add: sgx_sha256_msg_def)

text \<open>Of a source of exactly \<open>2 ^ 32\<close> bytes the narrowed length is 0.\<close>

lemma sgx_sha256_msg_narrowed:
  "length p_src = 2 ^ 32 \<Longrightarrow> sgx_sha256_msg p_src (length p_src) = sha256 []"
  by (simp add: sgx_sha256_msg_def)

lemma hashed_message_output:
  assumes "length (contract_code c) < 2 ^ 32" and "result_size c < 2 ^ 32"
  shows "hashed_message c =
     sha256 (contract_code c)
     @ (if input_data c = [] then []
        else sgx_sha256_msg (input_data c) (length (input_data c)))
     @ output_of c @ le64_bytes (gas_used c)"
  using assms
  by (simp add: hashed_message_def output_of_def sgx_sha256_msg_whole split: option.splits)

text \<open>
  The hash of a completed run for an input of any length: the input digest is the one
  \<open>sgx_sha256_msg\<close> computes from the narrowed length.
\<close>

lemma execution_hash_completed:
  assumes start: "state context \<noteq> CONTRACT_STATE_COMPLETED"
    and call: "execute_contract p n v context = Done (r, v', c')"
    and fin: "state c' = CONTRACT_STATE_COMPLETED"
  shows "r = SGX_SUCCESS" and "output_of c' = []"
    and "execution_hash c' =
       sha256 (sha256 (contract_code context)
               @ (if input_data context = [] then []
                  else sgx_sha256_msg (input_data context) (length (input_data context)))
               @ output_of c' @ le64_bytes (gas_used c'))"
proof -
  from start call fin have pre: "initialized v"
    "validate_contract_code (contract_code context) = SGX_SUCCESS"
    "malloc p MAX_RESULT_SIZE \<noteq> None"
    by (auto simp: execute_contract_def Let_def split: if_splits option.splits)
  then obtain buf where buf: "malloc p MAX_RESULT_SIZE = Some buf" by auto
  from pre(2) have "length (contract_code context) \<le> MAX_CONTRACT_SIZE"
    by (simp add: validate_contract_code_iff)
  then have len: "length (contract_code context) < 2 ^ 32"
    by (simp add: MAX_CONTRACT_SIZE_def)
  from call pre buf obtain r1 c1 where
    run: "exec_loop p n SGX_SUCCESS (start_context context buf) = Done (r1, c1)"
    and compl: "state c1 = CONTRACT_STATE_COMPLETED \<longrightarrow>
           r = SGX_SUCCESS \<and> c' = c1\<lparr>execution_hash := sha256 (hashed_message c1)\<rparr>"
    and other: "state c1 \<noteq> CONTRACT_STATE_COMPLETED \<longrightarrow> r = r1 \<and> c' = c1"
    using execute_contract_Done [of p n v "context" r v' c' buf] by blast
  from fin other have st: "state c1 = CONTRACT_STATE_COMPLETED" by auto
  with compl have r: "r = SGX_SUCCESS"
    and c': "c' = c1\<lparr>execution_hash := sha256 (hashed_message c1)\<rparr>" by simp_all
  from r show "r = SGX_SUCCESS" .
  note io = exec_loop_same_io [OF run]
  from c' io(4,5) have out: "output_of c' = []" "output_of c1 = []"
    by (simp_all add: output_of_def)
  from out(1) show "output_of c' = []" .
  from c' have "execution_hash c' = sha256 (hashed_message c1)" by simp
  also have "hashed_message c1 =
      sha256 (contract_code context)
      @ (if input_data context = [] then []
         else sgx_sha256_msg (input_data context) (length (input_data context)))
      @ output_of c' @ le64_bytes (gas_used c')"
    using io(1,2,4) out c' len by (simp add: hashed_message_output)
  finally show "execution_hash c' =
       sha256 (sha256 (contract_code context)
               @ (if input_data context = [] then []
                  else sgx_sha256_msg (input_data context) (length (input_data context)))
               @ output_of c' @ le64_bytes (gas_used c'))" .
qed

text \<open>
  Claim C3, as the code has it. When a call of \<open>execute_contract\<close> on a context that is
  not already \<open>COMPLETED\<close>, with an input of fewer than \<open>2 ^ 32\<close> bytes, returns in state
  \<open>COMPLETED\<close>, its status is \<open>SGX_SUCCESS\<close>, the output is empty, and the execution hash
  is the SHA-256 of the SHA-256 of the code, followed by the SHA-256 of the input when
  the input is not empty and by nothing when it is empty, followed by the output and
  the eight little-endian bytes of \<open>gas_used\<close>.
\<close>
theorem execution_hash_of_completed_run:
  "state context \<noteq> CONTRACT_STATE_COMPLETED
   \<and> length (input_data context) < 2 ^ 32
   \<and> execute_contract p n v context = Done (r, v', c')
   \<and> state c' = CONTRACT_STATE_COMPLETED \<longrightarrow>
   r = SGX_SUCCESS \<and> output_of c' = []
   \<and> execution_hash c' =
       sha256 (sha256 (contract_code context)
               @ (if input_data context = [] then [] else sha256 (input_data context))
               @ output_of c' @ le64_bytes (gas_used c'))"
proof (rule impI)
  assume h: "state context \<noteq> CONTRACT_STATE_COMPLETED
   \<and> length (input_data context) < 2 ^ 32
   \<and> execute_contract p n v context = Done (r, v', c')
   \<and> state c' = CONTRACT_STATE_COMPLETED"
  then have start: "state context \<noteq> CONTRACT_STATE_COMPLETED"
    and call: "execute_contract p n v context = Done (r, v', c')"
    and fin: "state c' = CONTRACT_STATE_COMPLETED"
    and len: "length (input_data context) < 2 ^ 32" by simp_all
  from len have "sgx_sha256_msg (input_data context) (length (input_data context))
                   = sha256 (input_data context)"
    by (simp add: sgx_sha256_msg_whole)
  with execution_hash_completed [OF start call fin]
  show "r = SGX_SUCCESS \<and> output_of c' = []
   \<and> execution_hash c' =
       sha256 (sha256 (contract_code context)
               @ (if input_data context = [] then [] else sha256 (input_data context))
               @ output_of c' @ le64_bytes (gas_used c'))"
    by simp
qed

text \<open>
  An input of exactly \<open>2 ^ 32\<close> bytes is outside that statement: the narrowed length is
  0, and the hash of a completed run covers the digest of the empty string in place of
  the digest of the input.
\<close>

lemma execution_hash_narrowed_input:
  assumes "state context \<noteq> CONTRACT_STATE_COMPLETED"
    and "execute_contract p n v context = Done (r, v', c')"
    and "state c' = CONTRACT_STATE_COMPLETED"
    and "length (input_data context) = 2 ^ 32"
  shows "execution_hash c' =
       sha256 (sha256 (contract_code context) @ sha256 []
               @ output_of c' @ le64_bytes (gas_used c'))"
proof -
  from assms(4) have "input_data context \<noteq> []" by auto
  moreover from assms(4)
  have "sgx_sha256_msg (input_data context) (length (input_data context)) = sha256 []"
    by (rule sgx_sha256_msg_narrowed)
  ultimately show ?thesis
    using execution_hash_completed(3) [OF assms(1,2,3)] by simp
qed

text \<open>The run of PUSH 10, PUSH 20, ADD, HALT on any input.\<close>

lemma boundary_context_state:
  "state (boundary_context code input) = CONTRACT_STATE_INIT"
  by (simp add: boundary_context_def)

lemma boundary_context_input:
  "input_data (boundary_context code input) = input"
  by (simp add: boundary_context_def)

lemma add_and_halt_run:
  "execute_contract demo_platform 4 demo_verifier (boundary_context add_and_halt input)
     = Done (SGX_SUCCESS, demo_verifier\<lparr>execution_counter := 1\<rparr>,
             (start_context (boundary_context add_and_halt input) (replicate MAX_RESULT_SIZE 0))
               \<lparr>stack := \<lparr>stack_data = (replicate 256 0)[0 := 30, 1 := 20], stack_top = 1\<rparr>,
                pc := 20, gas_used := 9, state := CONTRACT_STATE_COMPLETED,
                execution_hash :=
                  sha256 (sha256 add_and_halt
                          @ (if input = [] then [] else sgx_sha256_msg input (length input))
                          @ le64_bytes 9)\<rparr>)"
  by (simp add: exec_defs hashed_message_def add_and_halt_def list_update_swap
        sgx_sha256_msg_whole)

text \<open>
  Counterexample to C3 as stated: on PUSH 10, PUSH 20, ADD, HALT with empty input the run
  completes with 9 gas used and its execution hash is not the SHA-256 of code digest,
  digest of the empty string, output and gas.
\<close>

theorem execution_hash_empty_input_counterexample:
  "(case execute_contract demo_platform 4 demo_verifier (boundary_context add_and_halt []) of
      Done (s, v, t) \<Rightarrow>
        s = SGX_SUCCESS \<and> state t = CONTRACT_STATE_COMPLETED \<and> gas_used t = 9
        \<and> output_of t = []
        \<and> execution_hash t
            \<noteq> sha256 (sha256 add_and_halt @ sha256 [] @ output_of t @ le64_bytes (gas_used t))
    | _ \<Rightarrow> False)"
  by (simp add: add_and_halt_run output_of_def start_context_def)
     (simp add: add_and_halt_def le64_bytes_def sha256_add_and_halt sha256_empty
        sha256_code_gas sha256_code_empty_gas)

text \<open>
  Witness for C3: the same program on the input 01 02 03 04 completes, and its hash
  covers the code digest, the input digest and the gas.
\<close>

theorem execution_hash_of_completed_run_witness:
  "state (boundary_context add_and_halt [1, 2, 3, 4]) \<noteq> CONTRACT_STATE_COMPLETED
   \<and> length (input_data (boundary_context add_and_halt [1, 2, 3, 4])) < 2 ^ 32
   \<and> (\<exists>c. execute_contract demo_platform 4 demo_verifier
              (boundary_context add_and_halt [1, 2, 3, 4])
            = Done (SGX_SUCCESS, demo_verifier\<lparr>execution_counter := 1\<rparr>, c)
          \<and> state c = CONTRACT_STATE_COMPLETED \<and> gas_used c = 9
          \<and> execution_hash c
              = sha256 (sha256 add_and_halt @ sha256 [1, 2, 3, 4] @ le64_bytes 9))"
  using execution_hash_of_completed_run [of "boundary_context add_and_halt [1, 2, 3, 4]"
      demo_platform 4 demo_verifier SGX_SUCCESS "demo_verifier\<lparr>execution_counter := 1\<rparr>"
      "(start_context (boundary_context add_and_halt [1, 2, 3, 4]) (replicate MAX_RESULT_SIZE 0))
               \<lparr>stack := \<lparr>stack_data = (replicate 256 0)[0 := 30, 1 := 20], stack_top = 1\<rparr>,
                pc := 20, gas_used := 9, state := CONTRACT_STATE_COMPLETED,
                execution_hash :=
                  sha256 (sha256 add_and_halt @ sha256 [1, 2, 3, 4] @ le64_bytes 9)\<rparr>"]
  by (simp add: add_and_halt_run boundary_context_state boundary_context_input
        start_context_def output_of_def sgx_sha256_msg_whole)

section \<open>The key of a proof\<close>





lemma generate_key_pair_first_boot:
  assumes "signing_key ks = None" and "keystore_blob ks = None"
    and "generate_key_pair w ks = ((SGX_SUCCESS, private_key, pub), ks')"
  shows "sgx_ecc256_create_key_pair w = (SGX_SUCCESS, private_key, pub)"
  using assms
  by (auto simp: generate_key_pair_def split: option.splits prod.splits if_splits)






text \<open>The calls of a lifetime.\<close>

lemma generate_proofs_length:
  "length (fst (generate_proofs ks calls)) = length calls"
  by (induction calls arbitrary: ks) (auto simp: case_prod_beta)











end
